theory Spec2Isabelle
  imports Main "HOL-Library.AList"
begin

section \<open>Python values and exceptions\<close>

text \<open>
  Every exception the modelled code can raise is a value of \<open>error\<close>; a function that can
  raise returns \<open>error + 'a\<close> with \<open>Inl\<close> for the exception. \<open>SystemExit\<close> is what
  \<^verbatim>\<open>exit()\<close> raises. \<open>NonTermination\<close> stands for a loop that never ends.
\<close>

datatype error =
    TypeError
  | AttributeError
  | IndexError
  | KeyError
  | ValueError
  | UnboundLocalError
  | SystemExit
  | NonTermination
  | SinkFailure

section \<open>Configuration check at start-up (init_verification.py, Verification.__init__)\<close>

text \<open>A parsed configuration file is a JSON object: a dictionary from keys to JSON values.\<close>

datatype json = JNull | JBool bool | JNum int | JStr string

type_synonym config = "string \<rightharpoonup> json"

text \<open>Python truthiness of a JSON value, as \<^verbatim>\<open>x if x else d\<close> tests it.\<close>

fun truthy :: "json \<Rightarrow> bool" where
  "truthy JNull = False"
| "truthy (JBool b) = b"
| "truthy (JNum n) = (n \<noteq> 0)"
| "truthy (JStr s) = (s \<noteq> [])"

text \<open>\<^verbatim>\<open>d.get(k)\<close>: the value, or Python's None when the key is absent.\<close>

definition conf_get :: "config \<Rightarrow> string \<Rightarrow> json" where
  "conf_get conf k = (case conf k of None \<Rightarrow> JNull | Some v \<Rightarrow> v)"

text \<open>\<^verbatim>\<open>conf.get(k) if conf.get(k) else d\<close>\<close>

definition get_or :: "config \<Rightarrow> string \<Rightarrow> json \<Rightarrow> json" where
  "get_or conf k d = (if truthy (conf_get conf k) then conf_get conf k else d)"

record globals =
  VERDICT_SERVER_URL :: json
  VYPR_OUTPUT_VERBOSE :: json
  PROJECT_ROOT :: json
  VYPR_MODULE :: json
  TEST_FRAMEWORK :: json

text \<open>
  Lines 678 to 696 of \<^verbatim>\<open>Verification.__init__\<close>, from the parsed configuration on. The
  function's \<^verbatim>\<open>global\<close> statement does not list \<^verbatim>\<open>TEST_DIR\<close>, and the function assigns it,
  so \<^verbatim>\<open>TEST_DIR\<close> is a local variable of \<^verbatim>\<open>__init__\<close>: it is bound only when the
  assignment under \<^verbatim>\<open>if TEST_FRAMEWORK in ['yes']\<close> has run (\<open>Some\<close>), and reading it
  unbound raises UnboundLocalError. The result \<open>Inr g\<close> means that start-up goes on to
  contact the verdict server with the globals \<open>g\<close>.
\<close>

definition Verification_init :: "config \<Rightarrow> error + globals" where
  "Verification_init inst_configuration =
    (let g = \<lparr> VERDICT_SERVER_URL =
                  get_or inst_configuration ''verdict_server_url'' (JStr ''http://localhost:9001/''),
               VYPR_OUTPUT_VERBOSE = get_or inst_configuration ''verbose'' (JBool True),
               PROJECT_ROOT = get_or inst_configuration ''project_root'' (JStr ''''),
               VYPR_MODULE = get_or inst_configuration ''vypr_module'' (JStr ''''),
               TEST_FRAMEWORK = get_or inst_configuration ''test'' (JStr '''') \<rparr>;
         TEST_DIR = (if TEST_FRAMEWORK g = JStr ''yes''
                     then Some (get_or inst_configuration ''test_module'' (JStr ''''))
                     else None)
     in case TEST_DIR of
          None \<Rightarrow> Inl UnboundLocalError
        | Some d \<Rightarrow> if d = JStr '''' then Inl SystemExit else Inr g)"

section \<open>The abstract syntax tree (the AST module that construction.py consumes)\<close>

text \<open>
  Expression-level nodes. \<open>Subscript value slice\<close> holds its slice node, which is
  \<open>Index e\<close> for a plain index. \<open>Load\<close> is the load context node. \<open>OtherNode cs\<close> is a
  node of any other class (a binary operation, a comparison, a lambda, ...) with its
  child nodes \<open>cs\<close>.
\<close>

datatype expr =
    Name string
  | Attribute expr string
  | Subscript expr expr
  | Call expr "expr list"
  | Str string
  | Num int
  | Tuple "expr list"
  | Index expr
  | Load
  | OtherNode "expr list"

text \<open>
  Statements. \<open>Try body handlers\<close> holds the bodies of its except handlers.
  \<open>OtherStmt\<close> is a statement of any class that \<^verbatim>\<open>process_block\<close> has no branch for
  (an augmented assignment, \<^verbatim>\<open>break\<close>, \<^verbatim>\<open>continue\<close>, \<^verbatim>\<open>with\<close>, ...).
\<close>

datatype stmt =
    Assign "expr list" expr
  | Expr expr
  | Pass
  | Return "expr option"
  | Raise "expr option"
  | If expr "stmt list" "stmt list"
  | Try "stmt list" "stmt list list"
  | For expr expr "stmt list"
  | While expr "stmt list"
  | OtherStmt

section \<open>Name-extraction utilities (SCFG/construction.py)\<close>

subsection \<open>String formatting\<close>

fun digits :: "nat \<Rightarrow> string" where
  "digits n = (if n < 10 then [''0123456789'' ! n]
               else digits (n div 10) @ [''0123456789'' ! (n mod 10)])"

declare digits.simps [simp del]

text \<open>\<^verbatim>\<open>"%i" % n\<close>\<close>

definition str_of_int :: "int \<Rightarrow> string" where
  "str_of_int i = (if i < 0 then ''-'' @ digits (nat (- i)) else digits (nat i))"

text \<open>\<^verbatim>\<open>sep.join(parts)\<close>\<close>

fun join :: "string \<Rightarrow> string list \<Rightarrow> string" where
  "join sep [] = []"
| "join sep [x] = x"
| "join sep (x # y # ys) = x @ sep @ join sep (y # ys)"

subsection \<open>get_function_name_strings\<close>

text \<open>
  \<^verbatim>\<open>ast.iter_child_nodes\<close>, in field order. The context nodes of names, attributes and
  subscripts are left out: they are leaves and never calls.
\<close>

fun iter_child_nodes :: "expr \<Rightarrow> expr list" where
  "iter_child_nodes (Name i) = []"
| "iter_child_nodes (Attribute v a) = [v]"
| "iter_child_nodes (Subscript v sl) = [v, sl]"
| "iter_child_nodes (Call func args) = func # args"
| "iter_child_nodes (Str s) = []"
| "iter_child_nodes (Num n) = []"
| "iter_child_nodes (Tuple elts) = elts"
| "iter_child_nodes (Index e) = [e]"
| "iter_child_nodes Load = []"
| "iter_child_nodes (OtherNode cs) = cs"

fun nodes :: "expr \<Rightarrow> nat" where
  "nodes (Name i) = 1"
| "nodes (Attribute v a) = Suc (nodes v)"
| "nodes (Subscript v sl) = Suc (nodes v + nodes sl)"
| "nodes (Call func args) = Suc (nodes func + sum_list (map nodes args))"
| "nodes (Str s) = 1"
| "nodes (Num n) = 1"
| "nodes (Tuple elts) = Suc (sum_list (map nodes elts))"
| "nodes (Index e) = Suc (nodes e)"
| "nodes Load = 1"
| "nodes (OtherNode cs) = Suc (sum_list (map nodes cs))"

lemma nodes_children: "sum_list (map nodes (iter_child_nodes n)) < nodes n"
  by (cases n) simp_all

text \<open>
  \<^verbatim>\<open>ast.walk\<close>: breadth-first, the argument is the queue of nodes still to visit
  (\<^verbatim>\<open>todo.popleft()\<close>, then \<^verbatim>\<open>todo.extend(iter_child_nodes(node))\<close>).
\<close>

function walk :: "expr list \<Rightarrow> expr list" where
  "walk [] = []"
| "walk (node # todo) = node # walk (todo @ iter_child_nodes node)"
  by pat_completeness auto
termination
proof (relation "measure (\<lambda>todo. sum_list (map nodes todo))")
  show "wf (measure (\<lambda>todo. sum_list (map nodes todo)))" by simp
next
  fix node :: expr and todo :: "expr list"
  show "(todo @ iter_child_nodes node, node # todo) \<in> measure (\<lambda>todo. sum_list (map nodes todo))"
    using nodes_children [of node] by simp
qed

fun is_Call :: "expr \<Rightarrow> bool" where
  "is_Call (Call func args) = True"
| "is_Call _ = False"

text \<open>
  The inner \<^verbatim>\<open>while not (type(current_item) is str)\<close> loop of
  \<^verbatim>\<open>get_function_name_strings\<close>, for one call: it collects the names of the callee
  chain, innermost last. On a node of a class that no branch matches the loop body changes
  nothing and the loop never ends; that is the result \<open>None\<close>.
\<close>

partial_function (option) callee_chain :: "expr \<Rightarrow> string list \<Rightarrow> string list option" where
  "callee_chain current_item names =
     (case current_item of
        Call func args \<Rightarrow> callee_chain func names
      | Attribute v a \<Rightarrow> callee_chain v (names @ [a])
      | Name i \<Rightarrow> Some (names @ [i])
      | Str s \<Rightarrow> Some names
      | Subscript v sl \<Rightarrow> callee_chain v names
      | Num n \<Rightarrow> callee_chain current_item names
      | Tuple elts \<Rightarrow> callee_chain current_item names
      | Index e \<Rightarrow> callee_chain current_item names
      | Load \<Rightarrow> callee_chain current_item names
      | OtherNode cs \<Rightarrow> callee_chain current_item names)"

declare callee_chain.simps [code]

text \<open>The \<^verbatim>\<open>for call in all_calls\<close> loop: \<open>None\<close> as soon as one inner loop never ends.\<close>

fun full_names :: "expr list \<Rightarrow> string list list option" where
  "full_names [] = Some []"
| "full_names (call # calls) =
     (case callee_chain call [] of
        None \<Rightarrow> None
      | Some item \<Rightarrow> (case full_names calls of None \<Rightarrow> None | Some items \<Rightarrow> Some (item # items)))"

text \<open>
  The dictionary \<^verbatim>\<open>full_names\<close> is keyed by the call nodes. The interpreter is Python 2
  (\<^verbatim>\<open>from Queue import Queue\<close>, \<^verbatim>\<open>.keys()[0]\<close>), where \<^verbatim>\<open>full_names.values()\<close>
  follows the slots of the hash table; the hash of a node object is its address, so the
  order is decided by the run and not by the order of insertion. The model takes the order
  as a parameter: \<open>slot\<close> gives the place of a call node in the table, and the values are
  listed by increasing slot. Nodes are values here; two calls of the same shape have the
  same name, so their relative order does not show in the result.
\<close>

type_synonym slots = "expr \<Rightarrow> nat"

definition dict_values :: "slots \<Rightarrow> expr list \<Rightarrow> 'a list \<Rightarrow> 'a list" where
  "dict_values slot keys vals = map snd (sort_key (\<lambda>kv. slot (fst kv)) (zip keys vals))"

text \<open>
  \<^verbatim>\<open>get_function_name_strings\<close>. The argument is the queue that \<^verbatim>\<open>ast.walk\<close> holds
  after it has visited the root: \<open>[obj]\<close> for an expression \<open>obj\<close>, the targets followed by
  the value for an assignment statement. The loop over the calls runs in the order of the
  walk; the result lists \<^verbatim>\<open>full_names.values()\<close>.
\<close>

definition get_function_name_strings :: "slots \<Rightarrow> expr list \<Rightarrow> error + string list" where
  "get_function_name_strings slot todo =
     (case full_names (filter is_Call (walk todo)) of
        None \<Rightarrow> Inl NonTermination
      | Some items \<Rightarrow>
          Inr (map (\<lambda>item. join ''.'' (rev item))
                 (dict_values slot (filter is_Call (walk todo)) items)))"

subsection \<open>get_reversed_string_list\<close>

text \<open>
  \<^verbatim>\<open>[x] + r\<close> where \<open>r\<close> is the result of the recursive call: adding None to a list
  raises TypeError.
\<close>

fun prepend :: "string \<Rightarrow> error + string list option \<Rightarrow> error + string list option" where
  "prepend x (Inl e) = Inl e"
| "prepend x (Inr None) = Inl TypeError"
| "prepend x (Inr (Some l)) = Inr (Some (x # l))"

text \<open>
  The result \<open>Inr None\<close> is Python's None, which the function returns when no branch
  returns. \<^verbatim>\<open>obj.slice.value\<close> raises AttributeError on a slice node without that field.
  With \<^verbatim>\<open>omit_subscripts\<close> the recursive call on a subscript does not pass the flag on.
\<close>

fun get_reversed_string_list :: "slots \<Rightarrow> expr \<Rightarrow> bool \<Rightarrow> error + string list option" where
  "get_reversed_string_list slot (Name i) omit_subscripts = Inr (Some [i])"
| "get_reversed_string_list slot (Attribute v a) omit_subscripts =
     prepend a (get_reversed_string_list slot v omit_subscripts)"
| "get_reversed_string_list slot (Subscript v sl) omit_subscripts =
     (if omit_subscripts then get_reversed_string_list slot v False
      else (case sl of
              Index (Str s) \<Rightarrow>
                prepend ([CHR ''['', CHR 0x22] @ s @ [CHR 0x22, CHR '']''])
                  (get_reversed_string_list slot v omit_subscripts)
            | Index (Num n) \<Rightarrow>
                prepend (''['' @ str_of_int n @ '']'') (get_reversed_string_list slot v omit_subscripts)
            | Index (Name i) \<Rightarrow>
                prepend (''['' @ i @ '']'') (get_reversed_string_list slot v omit_subscripts)
            | Index _ \<Rightarrow> Inr None
            | _ \<Rightarrow> Inl AttributeError))"
| "get_reversed_string_list slot (Call func args) omit_subscripts =
     (case get_function_name_strings slot [Call func args] of
        Inl e \<Rightarrow> Inl e
      | Inr names \<Rightarrow> Inr (Some names))"
| "get_reversed_string_list slot (Str s) omit_subscripts = Inr (Some [s])"
| "get_reversed_string_list slot (Num n) omit_subscripts = Inr None"
| "get_reversed_string_list slot (Tuple elts) omit_subscripts = Inr None"
| "get_reversed_string_list slot (Index e) omit_subscripts = Inr None"
| "get_reversed_string_list slot Load omit_subscripts = Inr None"
| "get_reversed_string_list slot (OtherNode cs) omit_subscripts = Inr None"

subsection \<open>get_attr_name_string\<close>

text \<open>
  The \<^verbatim>\<open>for (n, part) in enumerate(result)\<close> loop; \<open>len\<close> is \<^verbatim>\<open>len(result)\<close>.
  \<^verbatim>\<open>part[0]\<close> raises IndexError on the empty string.
\<close>

fun attr_string_loop :: "nat \<Rightarrow> nat \<Rightarrow> string list \<Rightarrow> string \<Rightarrow> error + string option" where
  "attr_string_loop n len [] attr_string = Inr (Some attr_string)"
| "attr_string_loop n len (part # parts) attr_string =
     (if CHR ''.'' \<in> set part \<and> len > 1 then Inr None
      else if part = [] then Inl IndexError
      else if hd part \<noteq> CHR ''[''
        then attr_string_loop (Suc n) len parts (attr_string @ (if n \<noteq> 0 then ''.'' else []) @ part)
        else attr_string_loop (Suc n) len parts (attr_string @ part))"

text \<open>
  \<^verbatim>\<open>get_reversed_string_list(obj, ...)[::-1]\<close> raises TypeError when the list is None.
\<close>

definition get_attr_name_string :: "slots \<Rightarrow> expr \<Rightarrow> bool \<Rightarrow> error + string option" where
  "get_attr_name_string slot obj omit_subscripts =
     (case obj of
        Load \<Rightarrow> Inr None
      | Index e \<Rightarrow> Inr None
      | _ \<Rightarrow> (case get_reversed_string_list slot obj omit_subscripts of
                Inl e \<Rightarrow> Inl e
              | Inr None \<Rightarrow> Inl TypeError
              | Inr (Some l) \<Rightarrow> attr_string_loop 0 (length l) (rev l) []))"

text \<open>\<^verbatim>\<open>map(get_attr_name_string, elts)\<close>, which stops at the first exception.\<close>

fun map_attr_name_string :: "slots \<Rightarrow> expr list \<Rightarrow> error + string option list" where
  "map_attr_name_string slot [] = Inr []"
| "map_attr_name_string slot (x # xs) =
     (case get_attr_name_string slot x False of
        Inl e \<Rightarrow> Inl e
      | Inr n \<Rightarrow> (case map_attr_name_string slot xs of Inl e \<Rightarrow> Inl e | Inr ns \<Rightarrow> Inr (n # ns)))"

section \<open>SCFG vertices and edges (CFGVertex, CFGEdge)\<close>

text \<open>
  An element of a condition list is an AST node (a test), its negation, or a string label.
  Modelled from the spec: \<^verbatim>\<open>formula_tree.lnot\<close> is not among the sources (the formula
  module is an external collaborator); its result on an AST node is kept as the node under
  the constructor \<open>LogicalNot\<close>.
\<close>

datatype cond_item = Node expr | LogicalNot expr | Label string

text \<open>
  \<^verbatim>\<open>CFGEdge._condition\<close> is a copy of a condition list, or the single value that
  was passed (a string such as \<^verbatim>\<open>"conditional"\<close>, the iterable of a loop, or its negation).
\<close>

datatype condition = Conditions "cond_item list" | Condition cond_item

text \<open>\<^verbatim>\<open>CFGEdge._instruction\<close>: a statement node or a string.\<close>

datatype instruction = Instr stmt | InstrStr string

text \<open>
  \<^verbatim>\<open>CFGEdge._operates_on\<close>: a list of names, the single name of an assignment target, or
  the list that holds the instruction itself.
\<close>

datatype operand = Names "string option list" | Single "string option" | Instruction instruction

text \<open>
  Vertices and edges are objects with identity; the model keeps them in two arenas and
  refers to them by position. \<open>Unset\<close> is an attribute that was never assigned,
  \<open>Null\<close> is Python's None.
\<close>

datatype pointer = Unset | Null | Ref nat

record CFGVertex =
  name_changed :: "string option list"
  path_length :: "nat option"
  structure_obj :: "stmt option"
  edges :: "nat list"
  previous_edge :: "nat option"
  post_conditional_vertex :: pointer
  post_try_catch_vertex :: pointer

record CFGEdge =
  condition :: condition
  instruction :: instruction
  source_state :: "nat option"
  target_state :: "nat option"
  input_variables :: "string list"
  operates_on :: operand

text \<open>\<^verbatim>\<open>entry.type.func.id\<close> of a raise statement.\<close>

fun raise_name :: "expr option \<Rightarrow> error + string" where
  "raise_name (Some (Call (Name i) args)) = Inr i"
| "raise_name _ = Inl AttributeError"

text \<open>The names of an assignment whose value is a call; \<open>todo\<close> is the queue for the function names.\<close>

definition call_assignment_names ::
  "slots \<Rightarrow> expr list \<Rightarrow> expr list \<Rightarrow> error + string option list" where
  "call_assignment_names slot targets todo =
     (case targets of
        [] \<Rightarrow> Inl IndexError
      | Tuple elts # _ \<Rightarrow>
          (case map_attr_name_string slot elts of
             Inl e \<Rightarrow> Inl e
           | Inr ns \<Rightarrow> (case get_function_name_strings slot todo of
                          Inl e \<Rightarrow> Inl e
                        | Inr fs \<Rightarrow> Inr (ns @ map Some fs)))
      | t # _ \<Rightarrow>
          (case get_attr_name_string slot t False of
             Inl e \<Rightarrow> Inl e
           | Inr n \<Rightarrow> (case get_function_name_strings slot todo of
                         Inl e \<Rightarrow> Inl e
                       | Inr fs \<Rightarrow> Inr (n # map Some fs))))"

text \<open>\<^verbatim>\<open>get_attr_name_string(targets[0])\<close>\<close>

definition target_name :: "slots \<Rightarrow> expr list \<Rightarrow> error + string option" where
  "target_name slot targets =
     (case targets of [] \<Rightarrow> Inl IndexError | t # _ \<Rightarrow> get_attr_name_string slot t False)"

text \<open>
  The \<^verbatim>\<open>_name_changed\<close> that \<^verbatim>\<open>CFGVertex.__init__\<close> computes from \<^verbatim>\<open>entry\<close>. For
  a statement of any other class the source leaves the attribute unset;
  \<^verbatim>\<open>process_block\<close> never constructs a vertex from such a statement, and the model gives
  the AttributeError that the first read of the attribute raises.
\<close>

fun CFGVertex_name_changed ::
  "slots \<Rightarrow> stmt option \<Rightarrow> string list \<Rightarrow> error + string option list" where
  "CFGVertex_name_changed slot None reference_vars = Inr []"
| "CFGVertex_name_changed slot (Some (Assign targets v)) reference_vars =
     (if is_Call v then call_assignment_names slot targets (targets @ [v])
      else (case target_name slot targets of Inl e \<Rightarrow> Inl e | Inr n \<Rightarrow> Inr [n]))"
| "CFGVertex_name_changed slot (Some (Expr (Call func args))) reference_vars =
     (case get_function_name_strings slot [Call func args] of
        Inl e \<Rightarrow> Inl e
      | Inr fs \<Rightarrow> Inr (map Some fs @ (if length args > 0 then map Some reference_vars else [])))"
| "CFGVertex_name_changed slot (Some (Return (Some (Call func args)))) reference_vars =
     (case get_function_name_strings slot [Call func args] of
        Inl e \<Rightarrow> Inl e
      | Inr fs \<Rightarrow> Inr (map Some fs))"
| "CFGVertex_name_changed slot (Some (Return v)) reference_vars = Inr []"
| "CFGVertex_name_changed slot (Some (Raise t)) reference_vars =
     (case raise_name t of Inl e \<Rightarrow> Inl e | Inr i \<Rightarrow> Inr [Some i])"
| "CFGVertex_name_changed slot (Some Pass) reference_vars = Inr [Some ''pass'']"
| "CFGVertex_name_changed slot (Some other) reference_vars = Inl AttributeError"

definition CFGVertex_init ::
  "slots \<Rightarrow> stmt option \<Rightarrow> nat option \<Rightarrow> stmt option \<Rightarrow> string list \<Rightarrow> error + CFGVertex" where
  "CFGVertex_init slot entry pl structure reference_vars =
     (case CFGVertex_name_changed slot entry reference_vars of
        Inl e \<Rightarrow> Inl e
      | Inr ns \<Rightarrow> Inr \<lparr> name_changed = ns, path_length = pl, structure_obj = structure,
                       edges = [], previous_edge = None,
                       post_conditional_vertex = Unset, post_try_catch_vertex = Unset \<rparr>)"

text \<open>
  A synthetic vertex: \<^verbatim>\<open>CFGVertex()\<close> (or \<^verbatim>\<open>CFGVertex(structure_obj=entry)\<close>) followed by
  the assignment \<^verbatim>\<open>_name_changed = [name]\<close>.
\<close>

definition synthetic_vertex :: "string \<Rightarrow> stmt option \<Rightarrow> CFGVertex" where
  "synthetic_vertex name structure =
     \<lparr> name_changed = [Some name], path_length = None, structure_obj = structure,
       edges = [], previous_edge = None,
       post_conditional_vertex = Unset, post_try_catch_vertex = Unset \<rparr>"

text \<open>The \<^verbatim>\<open>_operates_on\<close> that \<^verbatim>\<open>CFGEdge.__init__\<close> computes from the instruction.\<close>

fun CFGEdge_operates_on :: "slots \<Rightarrow> instruction \<Rightarrow> error + operand" where
  "CFGEdge_operates_on slot (Instr (Assign targets v)) =
     (if is_Call v
      then (case call_assignment_names slot targets [v] of Inl e \<Rightarrow> Inl e | Inr ns \<Rightarrow> Inr (Names ns))
      else (case target_name slot targets of Inl e \<Rightarrow> Inl e | Inr n \<Rightarrow> Inr (Single n)))"
| "CFGEdge_operates_on slot (Instr (Expr (Call func args))) =
     (case get_function_name_strings slot [Call func args] of
        Inl e \<Rightarrow> Inl e
      | Inr fs \<Rightarrow> Inr (Names (map Some fs)))"
| "CFGEdge_operates_on slot (Instr (Return (Some (Call func args)))) =
     (case get_function_name_strings slot [Call func args] of
        Inl e \<Rightarrow> Inl e
      | Inr fs \<Rightarrow> Inr (Names (map Some fs)))"
| "CFGEdge_operates_on slot (Instr (Raise t)) =
     (case raise_name t of Inl e \<Rightarrow> Inl e | Inr i \<Rightarrow> Inr (Names [Some i]))"
| "CFGEdge_operates_on slot (Instr Pass) = Inr (Names [Some ''pass''])"
| "CFGEdge_operates_on slot i = Inr (Instruction i)"

text \<open>
  \<^verbatim>\<open>CFGEdge(condition, instruction, input_variables)\<close>. A condition list is copied, which
  a value does by itself.
\<close>

definition CFGEdge_init ::
  "slots \<Rightarrow> condition \<Rightarrow> instruction \<Rightarrow> string list \<Rightarrow> error + CFGEdge" where
  "CFGEdge_init slot c i ivs =
     (case CFGEdge_operates_on slot i of
        Inl e \<Rightarrow> Inl e
      | Inr ops \<Rightarrow> Inr \<lparr> condition = c, instruction = i, source_state = None, target_state = None,
                        input_variables = ivs, operates_on = ops \<rparr>)"

text \<open>
  \<^verbatim>\<open>CFGEdge(c, i)\<close> for a string instruction \<open>i\<close>: none of the statement branches of
  the constructor applies, and the input variables are the default empty list.
\<close>

definition control_edge :: "cond_item \<Rightarrow> string \<Rightarrow> CFGEdge" where
  "control_edge c i =
     \<lparr> condition = Condition c, instruction = InstrStr i, source_state = None,
       target_state = None, input_variables = [], operates_on = Instruction (InstrStr i) \<rparr>"

section \<open>The SCFG (class CFG)\<close>

text \<open>The entries of \<^verbatim>\<open>branch_initial_statements\<close>, one constructor for each tag.\<close>

datatype branch_entry =
    PostConditional stmt
  | Conditional stmt nat
  | ConditionalNoElse stmt nat
  | PostTryCatch stmt
  | TryCatch stmt string
  | Loop stmt stmt

text \<open>
  \<open>vertices\<close> is \<^verbatim>\<open>self.vertices\<close> and at the same time the arena of vertex objects:
  every vertex the builder creates is appended to \<^verbatim>\<open>self.vertices\<close>, in the order of
  creation. \<open>edge_objects\<close> is the arena of all edge objects; \<open>cfg_edges\<close> is
  \<^verbatim>\<open>self.edges\<close>, the edges that were appended to it.
\<close>

record CFG =
  vertices :: "CFGVertex list"
  edge_objects :: "CFGEdge list"
  cfg_edges :: "nat list"
  starting_vertices :: nat
  return_statements :: "nat list"
  branch_initial_statements :: "branch_entry list"
  reference_variables :: "string list"

text \<open>\<^verbatim>\<open>CFG.__init__\<close>\<close>

definition CFG_init :: "string list \<Rightarrow> CFG" where
  "CFG_init reference_vars =
     \<lparr> vertices = [\<lparr> name_changed = [], path_length = None, structure_obj = None,
                      edges = [], previous_edge = None,
                      post_conditional_vertex = Unset, post_try_catch_vertex = Unset \<rparr>],
       edge_objects = [], cfg_edges = [], starting_vertices = 0, return_statements = [],
       branch_initial_statements = [], reference_variables = reference_vars \<rparr>"

text \<open>\<^verbatim>\<open>vertex.add_outgoing_edge(edge)\<close>\<close>

definition add_outgoing_edge :: "nat \<Rightarrow> nat \<Rightarrow> CFG \<Rightarrow> CFG" where
  "add_outgoing_edge vertex edge g =
     g\<lparr> edge_objects := (edge_objects g)[edge := (edge_objects g ! edge)\<lparr>source_state := Some vertex\<rparr>],
        vertices := (vertices g)[vertex :=
           (vertices g ! vertex)\<lparr>edges := edges (vertices g ! vertex) @ [edge]\<rparr>] \<rparr>"

text \<open>\<^verbatim>\<open>edge.set_target_state(state)\<close>\<close>

definition set_target_state :: "nat \<Rightarrow> nat \<Rightarrow> CFG \<Rightarrow> CFG" where
  "set_target_state edge state g =
     g\<lparr> edge_objects := (edge_objects g)[edge := (edge_objects g ! edge)\<lparr>target_state := Some state\<rparr>],
        vertices := (vertices g)[state := (vertices g ! state)\<lparr>previous_edge := Some edge\<rparr>] \<rparr>"

text \<open>\<^verbatim>\<open>self.vertices.append(v)\<close> for a vertex that was just created.\<close>

definition append_vertex :: "CFGVertex \<Rightarrow> CFG \<Rightarrow> CFG" where
  "append_vertex v g = g\<lparr> vertices := vertices g @ [v] \<rparr>"

text \<open>
  The sequence that the builder repeats for every edge: create the edge object, append it
  to \<^verbatim>\<open>self.edges\<close> (all edges but the loop-skip edge), make it an outgoing edge of
  \<open>source\<close> and set its target. The source orders the last three steps differently from
  place to place; they write different fields, so the order does not matter.
\<close>

definition attach :: "bool \<Rightarrow> CFGEdge \<Rightarrow> nat \<Rightarrow> nat \<Rightarrow> CFG \<Rightarrow> CFG" where
  "attach publish new_edge source target g =
     (let e = length (edge_objects g) in
      set_target_state e target
        (add_outgoing_edge source e
          (g\<lparr> edge_objects := edge_objects g @ [new_edge],
              cfg_edges := (if publish then cfg_edges g @ [e] else cfg_edges g) \<rparr>)))"

definition log_branch :: "branch_entry \<Rightarrow> CFG \<Rightarrow> CFG" where
  "log_branch b g = g\<lparr> branch_initial_statements := branch_initial_statements g @ [b] \<rparr>"

section \<open>The SCFG builder (CFG.process_block)\<close>

subsection \<open>Straight-line statements\<close>

text \<open>
  The branches for an assignment, a call expression, \<^verbatim>\<open>pass\<close>, \<^verbatim>\<open>return\<close> and
  \<^verbatim>\<open>raise\<close>: one new edge from every current vertex, then one new vertex that all these
  edges lead to. The edge constructor runs once for every current vertex and raises at the
  first one if it raises at all; with no current vertex it does not run. The new vertex is
  at position \<open>length (vertices g)\<close>. The source adds every edge to its vertex first and
  sets the targets after the vertex exists; the resulting graph is the same.
\<close>

definition add_statement ::
  "slots \<Rightarrow> stmt \<Rightarrow> string list \<Rightarrow> nat list \<Rightarrow> cond_item list \<Rightarrow> string list \<Rightarrow> nat \<Rightarrow> CFG
    \<Rightarrow> error + CFG" where
  "add_statement slot entry reference_vars current_vertices cnd ivs pl g =
     (case CFGEdge_init slot (Conditions cnd) (Instr entry) ivs of
        Inl e \<Rightarrow>
          (if current_vertices \<noteq> [] then Inl e
           else (case CFGVertex_init slot (Some entry) (Some pl) None reference_vars of
                   Inl e' \<Rightarrow> Inl e'
                 | Inr new_vertex \<Rightarrow> Inr (append_vertex new_vertex g)))
      | Inr new_edge \<Rightarrow>
          (case CFGVertex_init slot (Some entry) (Some pl) None reference_vars of
             Inl e' \<Rightarrow> Inl e'
           | Inr new_vertex \<Rightarrow>
               Inr (fold (\<lambda>vertex. attach True new_edge vertex (length (vertices g)))
                      current_vertices (append_vertex new_vertex g))))"

subsection \<open>Conditionals\<close>

text \<open>
  The \<^verbatim>\<open>while type(current_conditional[0]) is ast.If\<close> loop that flattens an elif chain,
  entered with \<^verbatim>\<open>current_conditional\<close> set to an \<^verbatim>\<open>orelse\<close> block. Only the first
  statement of an \<^verbatim>\<open>orelse\<close> block is looked at: when it is an \<^verbatim>\<open>if\<close>, the statements
  after it in that block are not processed. The result is the list of further pairs and
  \<^verbatim>\<open>final_else_is_present\<close>.
\<close>

fun elif_pairs :: "stmt list \<Rightarrow> cond_item list \<Rightarrow> (cond_item list \<times> stmt list) list \<times> bool" where
  "elif_pairs [] current_condition_set = ([], False)"
| "elif_pairs (If test body orelse # after) current_condition_set =
     (case elif_pairs orelse (current_condition_set @ [LogicalNot test]) of
        (pairs, final_else) \<Rightarrow> ((current_condition_set @ [Node test], body) # pairs, final_else))"
| "elif_pairs current_conditional current_condition_set =
     ([(current_condition_set, current_conditional)], True)"

definition if_pairs :: "expr \<Rightarrow> stmt list \<Rightarrow> stmt list \<Rightarrow> (cond_item list \<times> stmt list) list" where
  "if_pairs test body orelse = ([Node test], body) # fst (elif_pairs orelse [LogicalNot test])"

definition final_else_is_present :: "expr \<Rightarrow> stmt list \<Rightarrow> bool" where
  "final_else_is_present test orelse = snd (elif_pairs orelse [LogicalNot test])"

text \<open>
  The head of a conditional or of a try block: the optional log entry when the statement
  is not the last of its block, the synthetic head vertex (at position
  \<open>length (vertices g)\<close>) and one control-flow edge from every current vertex to it.
\<close>

definition branch_head ::
  "string \<Rightarrow> stmt option \<Rightarrow> branch_entry \<Rightarrow> bool \<Rightarrow> nat list \<Rightarrow> CFG \<Rightarrow> CFG" where
  "branch_head name structure post_entry not_last current_vertices g =
     fold (\<lambda>vertex. attach True (control_edge (Label name) ''control-flow'') vertex (length (vertices g)))
       current_vertices
       (append_vertex (synthetic_vertex name structure)
          (if not_last then log_branch post_entry g else g))"

text \<open>
  The test of the filter after the branches, negated: the vertex has a previous edge and
  that edge carries a return or a raise.
\<close>

fun is_Return_or_Raise :: "instruction \<Rightarrow> bool" where
  "is_Return_or_Raise (Instr (Return v)) = True"
| "is_Return_or_Raise (Instr (Raise t)) = True"
| "is_Return_or_Raise _ = False"

definition returns_or_raises :: "CFG \<Rightarrow> nat \<Rightarrow> bool" where
  "returns_or_raises g vertex =
     (case previous_edge (vertices g ! vertex) of
        None \<Rightarrow> False
      | Some e \<Rightarrow> is_Return_or_Raise (instruction (edge_objects g ! e)))"

definition surviving :: "CFG \<Rightarrow> nat list \<Rightarrow> nat list" where
  "surviving g current_vertices = filter (\<lambda>vertex. \<not> returns_or_raises g vertex) current_vertices"

text \<open>Assignment to \<^verbatim>\<open>post_conditional_vertex\<close> or \<^verbatim>\<open>post_try_catch_vertex\<close> of the head.\<close>

definition set_merge_pointer :: "bool \<Rightarrow> nat \<Rightarrow> pointer \<Rightarrow> CFG \<Rightarrow> CFG" where
  "set_merge_pointer is_try head p g =
     g\<lparr> vertices := (vertices g)[head :=
          (if is_try then (vertices g ! head)\<lparr>post_try_catch_vertex := p\<rparr>
           else (vertices g ! head)\<lparr>post_conditional_vertex := p\<rparr>)] \<rparr>"

text \<open>
  The end of a conditional (\<open>is_try = False\<close>) or of a try block: filter the collected
  vertices; if some are left, create the merge vertex, record it on the head and lead
  every vertex that is left into it; otherwise set the head's pointer to None. The result
  is the new list of current vertices and the graph.
\<close>

definition merge_branches :: "bool \<Rightarrow> nat \<Rightarrow> nat list \<Rightarrow> CFG \<Rightarrow> nat list \<times> CFG" where
  "merge_branches is_try head collected g =
     (let current_vertices = surviving g collected;
          name = (if is_try then ''post-try-catch'' else ''post-conditional'');
          label = (if is_try then ''post-try-catch'' else ''post-condition'')
      in if length current_vertices > 0
         then ([length (vertices g)],
               fold (\<lambda>vertex. attach True (control_edge (Label label) ''control-flow'') vertex
                                (length (vertices g)))
                 current_vertices
                 (set_merge_pointer is_try head (Ref (length (vertices g)))
                    (append_vertex (synthetic_vertex name None) g)))
         else ([], set_merge_pointer is_try head Null g))"

text \<open>
  After the branches of a conditional: without a final else the log entry
  \<^verbatim>\<open>conditional-no-else\<close> and the head itself as one more vertex to carry on from.
\<close>

definition end_conditional ::
  "stmt \<Rightarrow> nat \<Rightarrow> bool \<Rightarrow> nat \<Rightarrow> nat list \<Rightarrow> CFG \<Rightarrow> nat list \<times> CFG" where
  "end_conditional entry npairs final_else head final_conditional_vertices g =
     (if final_else then merge_branches False head final_conditional_vertices g
      else merge_branches False head (final_conditional_vertices @ [head])
             (log_branch (ConditionalNoElse entry npairs) g))"

subsection \<open>Try blocks\<close>

text \<open>
  The log entries of a try block: \<^verbatim>\<open>entry.body[0]\<close> and \<^verbatim>\<open>except_handler.body[0]\<close>
  raise IndexError on an empty body.
\<close>

fun handler_entries :: "stmt list list \<Rightarrow> error + branch_entry list" where
  "handler_entries [] = Inr []"
| "handler_entries ([] # hs) = Inl IndexError"
| "handler_entries ((first # others) # hs) =
     (case handler_entries hs of
        Inl e \<Rightarrow> Inl e
      | Inr es \<Rightarrow> Inr (TryCatch first ''try-catch-handler'' # es))"

definition try_entries :: "stmt list \<Rightarrow> stmt list list \<Rightarrow> error + branch_entry list" where
  "try_entries body handlers =
     (case body of
        [] \<Rightarrow> Inl IndexError
      | first # others \<Rightarrow>
          (case handler_entries handlers of
             Inl e \<Rightarrow> Inl e
           | Inr es \<Rightarrow> Inr (TryCatch first ''try-catch-main'' # es)))"

definition log_branches :: "branch_entry list \<Rightarrow> CFG \<Rightarrow> CFG" where
  "log_branches bs g = g\<lparr> branch_initial_statements := branch_initial_statements g @ bs \<rparr>"

subsection \<open>Loops\<close>

text \<open>
  The head of a for loop: the \<^verbatim>\<open>loop\<close> vertex at position \<open>length (vertices g)\<close>, the
  \<^verbatim>\<open>post-loop\<close> vertex after it, and an edge from every current vertex to the loop vertex.
\<close>

definition for_head :: "expr \<Rightarrow> nat list \<Rightarrow> CFG \<Rightarrow> CFG" where
  "for_head iter current_vertices g =
     fold (\<lambda>vertex. attach True
              \<lparr> condition = Condition (Node iter), instruction = InstrStr ''loop'',
                source_state = None, target_state = None, input_variables = [],
                operates_on = Instruction (InstrStr ''loop'') \<rparr>
              vertex (length (vertices g)))
       current_vertices
       (append_vertex (synthetic_vertex ''post-loop'' None)
          (append_vertex (synthetic_vertex ''loop'' None) g))"

text \<open>
  \<^verbatim>\<open>additional_input_variables\<close> is a local variable of \<^verbatim>\<open>process_block\<close> that the
  for branch assigns only for a name or a tuple target; otherwise it keeps the value of an
  earlier loop of the same block, or is unbound (\<open>None\<close>). \<^verbatim>\<open>item.id\<close> raises
  AttributeError on a tuple element that is not a name.
\<close>

fun element_ids :: "expr list \<Rightarrow> error + string list" where
  "element_ids [] = Inr []"
| "element_ids (Name i # items) =
     (case element_ids items of Inl e \<Rightarrow> Inl e | Inr is \<Rightarrow> Inr (i # is))"
| "element_ids (item # items) = Inl AttributeError"

fun loop_variables :: "expr \<Rightarrow> string list option \<Rightarrow> error + string list option" where
  "loop_variables (Name i) additional = Inr (Some [i])"
| "loop_variables (Tuple elts) additional =
     (case element_ids elts of Inl e \<Rightarrow> Inl e | Inr is \<Rightarrow> Inr (Some is))"
| "loop_variables loop_variable additional = Inr additional"

text \<open>
  \<^verbatim>\<open>input_variables_copy + additional_input_variables\<close>, which reads the local variable:
  UnboundLocalError when no loop of this block has bound it.
\<close>

definition body_input_variables :: "string list \<Rightarrow> expr \<Rightarrow> string list option \<Rightarrow> error + string list" where
  "body_input_variables ivs loop_variable additional =
     (case loop_variables loop_variable additional of
        Inl e \<Rightarrow> Inl e
      | Inr None \<Rightarrow> Inl UnboundLocalError
      | Inr (Some a) \<Rightarrow> Inr (ivs @ a))"

definition additional_after :: "expr \<Rightarrow> string list option \<Rightarrow> string list option" where
  "additional_after loop_variable additional =
     (case loop_variables loop_variable additional of Inl e \<Rightarrow> additional | Inr a \<Rightarrow> a)"

text \<open>
  The end of a for loop, after the body: the log entry, for every final vertex of the body
  a \<^verbatim>\<open>loop-jump\<close> edge back to the loop vertex and a \<^verbatim>\<open>post-loop\<close> edge to the post-loop
  vertex, and at last the \<^verbatim>\<open>loop-skip\<close> edge from the loop vertex to the post-loop
  vertex, which is not appended to \<^verbatim>\<open>self.edges\<close>.
\<close>

definition for_tail :: "stmt \<Rightarrow> stmt \<Rightarrow> expr \<Rightarrow> nat \<Rightarrow> nat list \<Rightarrow> CFG \<Rightarrow> CFG" where
  "for_tail entry first iter loop_vertex final_vertices g =
     attach False
       \<lparr> condition = Condition (LogicalNot iter), instruction = InstrStr ''loop-skip'',
         source_state = None, target_state = None, input_variables = [],
         operates_on = Instruction (InstrStr ''loop-skip'') \<rparr>
       loop_vertex (Suc loop_vertex)
       (fold (\<lambda>final_vertex g'.
                attach True (control_edge (Label ''post-loop'') ''post-loop'') final_vertex (Suc loop_vertex)
                  (attach True (control_edge (Label ''loop-jump'') ''loop-jump'') final_vertex loop_vertex g'))
          final_vertices
          (log_branch (Loop first entry) g))"

text \<open>
  The end of a while loop: from every final vertex of the body an edge back to every
  vertex the loop was entered from.
\<close>

definition while_tail :: "nat list \<Rightarrow> nat list \<Rightarrow> CFG \<Rightarrow> CFG" where
  "while_tail final_vertices base_vertices g =
     fold (\<lambda>final_vertex.
             fold (\<lambda>base_vertex. attach True (control_edge (Label ''for'') ''loop-jump'')
                                   final_vertex base_vertex)
               base_vertices)
       final_vertices g"

subsection \<open>process_block\<close>

text \<open>
  Weights for the termination of the builder: a block, and the bodies of a list of
  (condition, body) pairs.
\<close>

definition block_weight :: "stmt list \<Rightarrow> nat" where
  "block_weight block = 3 * size_list size block + 1"

definition pairs_weight :: "(cond_item list \<times> stmt list) list \<Rightarrow> nat" where
  "pairs_weight pairs = sum_list (map (\<lambda>p. block_weight (snd p) + 1) pairs)"

definition handlers_weight :: "stmt list list \<Rightarrow> nat" where
  "handlers_weight hs = sum_list (map (\<lambda>h. block_weight h + 1) hs)"

lemma elif_pairs_weight: "pairs_weight (fst (elif_pairs orelse ccs)) \<le> 3 * size_list size orelse + 2"
  by (induction orelse ccs rule: elif_pairs.induct)
     (auto simp add: pairs_weight_def block_weight_def split: prod.splits)

lemma if_pairs_weight:
  "pairs_weight (if_pairs test body orelse) < block_weight (If test body orelse # rest)"
  using elif_pairs_weight [of orelse "[LogicalNot test]"]
  by (simp add: if_pairs_def pairs_weight_def block_weight_def)

lemma handlers_weight_le: "handlers_weight hs \<le> 3 * size_list (size_list size) hs"
  by (induction hs) (simp_all add: handlers_weight_def block_weight_def)

text \<open>
  The loop \<^verbatim>\<open>for (n, entry) in enumerate(block)\<close> of \<^verbatim>\<open>process_block\<close>, as a recursion
  over the statements that are left. The first argument is the dictionary order that the
  name utilities read. The arguments after the block are the local variables
  that the loop carries from one statement to the next: \<^verbatim>\<open>current_vertices\<close>,
  \<^verbatim>\<open>condition\<close>, \<^verbatim>\<open>input_variables_copy\<close>, \<^verbatim>\<open>path_length\<close> and
  \<^verbatim>\<open>additional_input_variables\<close>; then the graph. \<^verbatim>\<open>entry != entry._parent_body[-1]\<close>
  compares node objects, and holds exactly when statements are left after \<open>entry\<close>.

  \<open>process_pairs\<close> is the loop over the (condition, body) pairs of a conditional (with
  the counter \<open>n\<close> and the list \<^verbatim>\<open>final_conditional_vertices\<close> collected so far),
  \<open>process_handlers\<close> the loop over the except handler bodies of a try block. Each
  recursive call of \<^verbatim>\<open>process_block\<close> starts a new block: path length 0 and
  \<^verbatim>\<open>additional_input_variables\<close> unbound.
\<close>

function (sequential)
  process_stmts ::
    "slots \<Rightarrow> stmt list \<Rightarrow> nat list \<Rightarrow> cond_item list \<Rightarrow> string list \<Rightarrow> nat \<Rightarrow> string list option \<Rightarrow> CFG
      \<Rightarrow> error + (nat list \<times> CFG)"
and process_pairs ::
    "slots \<Rightarrow> (cond_item list \<times> stmt list) list \<Rightarrow> nat \<Rightarrow> nat list \<Rightarrow> string list \<Rightarrow> nat list \<Rightarrow> CFG
      \<Rightarrow> error + (nat list \<times> CFG)"
and process_handlers ::
    "slots \<Rightarrow> stmt list list \<Rightarrow> nat list \<Rightarrow> string list \<Rightarrow> nat list \<Rightarrow> CFG
      \<Rightarrow> error + (nat list \<times> CFG)"
where
  "process_stmts slot [] cur cnd ivs pl aiv g = Inr (cur, g)"
| "process_stmts slot (Assign targets v # rest) cur cnd ivs pl aiv g =
     (case add_statement slot (Assign targets v) (reference_variables g) cur cnd ivs (Suc pl) g of
        Inl e \<Rightarrow> Inl e
      | Inr g1 \<Rightarrow> process_stmts slot rest [length (vertices g)] cnd ivs (Suc pl) aiv g1)"
| "process_stmts slot (Expr v # rest) cur cnd ivs pl aiv g =
     (if is_Call v
      then (case add_statement slot (Expr v) (reference_variables g) cur cnd ivs (Suc pl) g of
              Inl e \<Rightarrow> Inl e
            | Inr g1 \<Rightarrow> process_stmts slot rest [length (vertices g)] cnd ivs (Suc pl) aiv g1)
      else process_stmts slot rest cur cnd ivs pl aiv g)"
| "process_stmts slot (Pass # rest) cur cnd ivs pl aiv g =
     (case add_statement slot Pass [] cur cnd ivs (Suc pl) g of
        Inl e \<Rightarrow> Inl e
      | Inr g1 \<Rightarrow> process_stmts slot rest [length (vertices g)] cnd ivs (Suc pl) aiv g1)"
| "process_stmts slot (Return v # rest) cur cnd ivs pl aiv g =
     (case add_statement slot (Return v) [] cur cnd ivs (Suc pl) g of
        Inl e \<Rightarrow> Inl e
      | Inr g1 \<Rightarrow>
          process_stmts slot rest [length (vertices g)] cnd ivs (Suc pl) aiv
            (g1\<lparr> return_statements := return_statements g1 @ [length (vertices g)] \<rparr>))"
| "process_stmts slot (Raise t # rest) cur cnd ivs pl aiv g =
     (case add_statement slot (Raise t) [] cur cnd ivs (Suc pl) g of
        Inl e \<Rightarrow> Inl e
      | Inr g1 \<Rightarrow> process_stmts slot rest [length (vertices g)] cnd ivs (Suc pl) aiv g1)"
| "process_stmts slot (If test body orelse # rest) cur cnd ivs pl aiv g =
     (case process_pairs slot (if_pairs test body orelse) 0 [length (vertices g)] ivs []
             (branch_head ''conditional'' (Some (If test body orelse))
                (PostConditional (If test body orelse)) (rest \<noteq> []) cur g) of
        Inl e \<Rightarrow> Inl e
      | Inr (final_conditional_vertices, g1) \<Rightarrow>
          (case end_conditional (If test body orelse) (length (if_pairs test body orelse))
                  (final_else_is_present test orelse) (length (vertices g))
                  final_conditional_vertices g1 of
             (cur', g2) \<Rightarrow>
               process_stmts slot rest cur' (cnd @ [Label ''skip-conditional'']) ivs 0 aiv g2))"
| "process_stmts slot (Try body handlers # rest) cur cnd ivs pl aiv g =
     (case try_entries body handlers of
        Inl e \<Rightarrow> Inl e
      | Inr entries \<Rightarrow>
          (case process_stmts slot body [length (vertices g)] [Label ''try-catch-main''] ivs 0 None
                  (log_branches entries
                     (branch_head ''try-catch'' None (PostTryCatch (Try body handlers))
                        (rest \<noteq> []) cur g)) of
             Inl e \<Rightarrow> Inl e
           | Inr (final_vertices, g1) \<Rightarrow>
               (case process_handlers slot handlers [length (vertices g)] ivs final_vertices g1 of
                  Inl e \<Rightarrow> Inl e
                | Inr (final_try_catch_vertices, g2) \<Rightarrow>
                    (case merge_branches True (length (vertices g)) final_try_catch_vertices g2 of
                       (cur', g3) \<Rightarrow>
                         process_stmts slot rest cur' (cnd @ [Label ''skip-try-catch'']) ivs 0 aiv g3))))"
| "process_stmts slot (For target iter body # rest) cur cnd ivs pl aiv g =
     (case body_input_variables ivs target aiv of
        Inl e \<Rightarrow> Inl e
      | Inr body_ivs \<Rightarrow>
          (case process_stmts slot body [length (vertices g)] [Label ''enter-loop''] body_ivs 0 None
                  (for_head iter cur g) of
             Inl e \<Rightarrow> Inl e
           | Inr (final_vertices, g1) \<Rightarrow>
               (case body of
                  [] \<Rightarrow> Inl IndexError
                | first # others \<Rightarrow>
                    process_stmts slot rest [Suc (length (vertices g))]
                      (cnd @ [Label ''skip-for-loop'']) ivs 0 (additional_after target aiv)
                      (for_tail (For target iter body) first iter (length (vertices g))
                         final_vertices g1))))"
| "process_stmts slot (While test body # rest) cur cnd ivs pl aiv g =
     (case process_stmts slot body cur [Label ''while''] ivs 0 None g of
        Inl e \<Rightarrow> Inl e
      | Inr (final_vertices, g1) \<Rightarrow>
          process_stmts slot rest final_vertices cnd ivs (Suc pl) aiv
            (while_tail final_vertices cur g1))"
| "process_stmts slot (OtherStmt # rest) cur cnd ivs pl aiv g = process_stmts slot rest cur cnd ivs pl aiv g"
| "process_pairs slot [] n cur ivs finals g = Inr (finals, g)"
| "process_pairs slot ((c, body) # pairs) n cur ivs finals g =
     (case process_stmts slot body cur c ivs 0 None g of
        Inl e \<Rightarrow> Inl e
      | Inr (final_vertices, g1) \<Rightarrow>
          (case body of
             [] \<Rightarrow> Inl IndexError
           | first # others \<Rightarrow>
               process_pairs slot pairs (Suc n) cur ivs (finals @ final_vertices)
                 (log_branch (Conditional first n) g1)))"
| "process_handlers slot [] cur ivs finals g = Inr (finals, g)"
| "process_handlers slot (block_item # blocks) cur ivs finals g =
     (case process_stmts slot block_item cur [Label ''try-catch-handler''] ivs 0 None g of
        Inl e \<Rightarrow> Inl e
      | Inr (final_vertices, g1) \<Rightarrow> process_handlers slot blocks cur ivs (finals @ final_vertices) g1)"
  by pat_completeness auto
termination
  apply (relation "measure (\<lambda>x. case x of
           Inl (slot, block, cur, cnd, ivs, pl, aiv, g) \<Rightarrow> block_weight block
         | Inr (Inl (slot, pairs, n, cur, ivs, finals, g)) \<Rightarrow> pairs_weight pairs
         | Inr (Inr (slot, hs, cur, ivs, finals, g)) \<Rightarrow> handlers_weight hs)")
  apply (simp_all add: block_weight_def pairs_weight_def handlers_weight_def)
  subgoal for test body orelse rest
    using if_pairs_weight [of test body orelse rest]
    by (simp add: pairs_weight_def block_weight_def)
  subgoal
    by (rule le_less_trans
          [OF handlers_weight_le [unfolded handlers_weight_def block_weight_def, simplified]])
       simp
  done

text \<open>
  \<^verbatim>\<open>process_block(block, starting_vertices, condition, input_variables)\<close>:
  \<^verbatim>\<open>starting_vertices\<close> is None (the default) or a list of vertices.
\<close>

definition process_block ::
  "slots \<Rightarrow> stmt list \<Rightarrow> nat list option \<Rightarrow> cond_item list \<Rightarrow> string list \<Rightarrow> CFG \<Rightarrow> error + (nat list \<times> CFG)" where
  "process_block slot block starting_vs cnd ivs g =
     process_stmts slot block
       (case starting_vs of None \<Rightarrow> [starting_vertices g] | Some vs \<Rightarrow> vs)
       cnd ivs 0 None g"

section \<open>Grammar derivation (CFG.derive_grammar)\<close>

text \<open>
  A symbol of a rule: an edge (terminal), a vertex (non-terminal), or the None of the rule
  that generates the empty string.
\<close>

datatype symbol = Epsilon | Edge nat | Vertex nat

text \<open>
  \<^verbatim>\<open>edge._target_state\<close>, read in order to take an attribute of it: AttributeError when
  the target is None.
\<close>

definition target_of :: "CFG \<Rightarrow> nat \<Rightarrow> error + nat" where
  "target_of g e = (case target_state (edge_objects g ! e) of None \<Rightarrow> Inl AttributeError | Some v \<Rightarrow> Inr v)"

text \<open>\<^verbatim>\<open>edge._target_state._name_changed\<close>\<close>

definition target_name_changed :: "CFG \<Rightarrow> nat \<Rightarrow> error + string option list" where
  "target_name_changed g e =
     (case target_of g e of Inl err \<Rightarrow> Inl err | Inr v \<Rightarrow> Inr (name_changed (vertices g ! v)))"

text \<open>
  \<^verbatim>\<open>filter(lambda edge: P(edge._target_state._name_changed), edges)\<close>: the test runs on
  every edge and stops at the first exception.
\<close>

fun filter_by_target :: "(string option list \<Rightarrow> bool) \<Rightarrow> CFG \<Rightarrow> nat list \<Rightarrow> error + nat list" where
  "filter_by_target P g [] = Inr []"
| "filter_by_target P g (e # es) =
     (case target_name_changed g e of
        Inl err \<Rightarrow> Inl err
      | Inr n \<Rightarrow> (case filter_by_target P g es of
                    Inl err \<Rightarrow> Inl err
                  | Inr fs \<Rightarrow> Inr (if P n then e # fs else fs)))"

text \<open>\<^verbatim>\<open>list(filter(...))[0]\<close>: IndexError when no edge passes the test.\<close>

definition first_by_target :: "(string option list \<Rightarrow> bool) \<Rightarrow> CFG \<Rightarrow> nat list \<Rightarrow> error + nat" where
  "first_by_target P g es =
     (case filter_by_target P g es of
        Inl err \<Rightarrow> Inl err
      | Inr [] \<Rightarrow> Inl IndexError
      | Inr (e # fs) \<Rightarrow> Inr e)"

text \<open>The rule \<^verbatim>\<open>[edge, edge._target_state]\<close>.\<close>

definition edge_then_target :: "CFG \<Rightarrow> nat \<Rightarrow> error + symbol list" where
  "edge_then_target g e =
     (case target_of g e of Inl err \<Rightarrow> Inl err | Inr v \<Rightarrow> Inr [Edge e, Vertex v])"

text \<open>
  The rule for an edge that either ends at one of the vertices named in \<open>stops\<close>
  (\<^verbatim>\<open>[edge]\<close>) or goes on (\<^verbatim>\<open>[edge, edge._target_state]\<close>).
\<close>

definition stop_or_continue :: "string list \<Rightarrow> CFG \<Rightarrow> nat \<Rightarrow> error + symbol list" where
  "stop_or_continue stops g e =
     (case target_name_changed g e of
        Inl err \<Rightarrow> Inl err
      | Inr n \<Rightarrow> if n \<in> set (map (\<lambda>s. [Some s]) stops) then Inr [Edge e] else edge_then_target g e)"

text \<open>The rules of a conditional or try-catch head: one for every outgoing edge.\<close>

fun head_rules :: "CFG \<Rightarrow> nat list \<Rightarrow> error + symbol list list" where
  "head_rules g [] = Inr []"
| "head_rules g (e # es) =
     (case stop_or_continue [''post-conditional''] g e of
        Inl err \<Rightarrow> Inl err
      | Inr r \<Rightarrow> (case head_rules g es of Inl err \<Rightarrow> Inl err | Inr rs \<Rightarrow> Inr (r # rs)))"

text \<open>
  The rule for a plain vertex whose first edge leads to a conditional or try-catch head:
  \<open>p\<close> is the head's merge pointer; reading it unset raises AttributeError.
\<close>

definition rule_into_head :: "nat \<Rightarrow> nat \<Rightarrow> pointer \<Rightarrow> error + symbol list list" where
  "rule_into_head e head p =
     (case p of
        Unset \<Rightarrow> Inl AttributeError
      | Null \<Rightarrow> Inr [[Edge e, Vertex head]]
      | Ref m \<Rightarrow> Inr [[Edge e, Vertex head, Vertex m]])"

definition synthetic_names :: "string option list list" where
  "synthetic_names = map (\<lambda>s. [Some s])
     [''conditional'', ''loop'', ''try-catch'', ''post-conditional'', ''post-loop'', ''post-try-catch'']"

text \<open>
  The body of the loop \<^verbatim>\<open>for vertex in self.vertices\<close>: the list of rules that
  \<^verbatim>\<open>final_map[vertex]\<close> is set to, for the vertex at position \<open>v\<close>. \<open>es ! 0\<close> is read
  only when the vertex has an edge; \<^verbatim>\<open>vertex.edges[1]\<close> raises IndexError when there is
  only one.
\<close>

definition vertex_rules :: "CFG \<Rightarrow> nat \<Rightarrow> error + symbol list list" where
  "vertex_rules g v =
     (let nm = name_changed (vertices g ! v); es = edges (vertices g ! v) in
      if length es = 0 then Inr [[Epsilon]]
      else if nm \<notin> set synthetic_names then
        (case target_name_changed g (es ! 0) of
           Inl err \<Rightarrow> Inl err
         | Inr t0 \<Rightarrow>
             if t0 \<noteq> [Some ''conditional''] \<and> t0 \<noteq> [Some ''try-catch''] then
               (if t0 = [Some ''post-conditional''] \<or> t0 = [Some ''post-try-catch'']
                then Inr [[Edge (es ! 0)]]
                else (case filter_by_target (\<lambda>n. n = [Some ''post-loop'']) g es of
                        Inl err \<Rightarrow> Inl err
                      | Inr post_loop_edges \<Rightarrow>
                          if post_loop_edges \<noteq> [] then
                            (case first_by_target (\<lambda>n. n = [Some ''loop'']) g es of
                               Inl err \<Rightarrow> Inl err
                             | Inr reloop_edge \<Rightarrow>
                                 (case first_by_target (\<lambda>n. n \<noteq> [Some ''loop'']) g es of
                                    Inl err \<Rightarrow> Inl err
                                  | Inr loop_skip_edge \<Rightarrow>
                                      (case edge_then_target g reloop_edge of
                                         Inl err \<Rightarrow> Inl err
                                       | Inr r \<Rightarrow> Inr [r, [Edge loop_skip_edge]])))
                          else if t0 = [Some ''loop''] then
                            (case target_of g (es ! 0) of
                               Inl err \<Rightarrow> Inl err
                             | Inr loop_vertex \<Rightarrow>
                                 (case first_by_target (\<lambda>n. n = [Some ''post-loop'']) g
                                         (edges (vertices g ! loop_vertex)) of
                                    Inl err \<Rightarrow> Inl err
                                  | Inr e \<Rightarrow>
                                      (case target_of g e of
                                         Inl err \<Rightarrow> Inl err
                                       | Inr post_loop_vertex \<Rightarrow>
                                           Inr [[Edge (es ! 0), Vertex loop_vertex,
                                                 Vertex post_loop_vertex]])))
                          else
                            (case stop_or_continue
                                    [''post-conditional'', ''post-loop'', ''post-try-catch''] g (es ! 0) of
                               Inl err \<Rightarrow> Inl err
                             | Inr r \<Rightarrow> Inr [r])))
             else
               (case target_of g (es ! 0) of
                  Inl err \<Rightarrow> Inl err
                | Inr head \<Rightarrow>
                    if t0 = [Some ''conditional'']
                    then rule_into_head (es ! 0) head (post_conditional_vertex (vertices g ! head))
                    else rule_into_head (es ! 0) head (post_try_catch_vertex (vertices g ! head))))
      else if nm = [Some ''loop''] then
        (case first_by_target (\<lambda>n. n = [Some ''post-loop'']) g es of
           Inl err \<Rightarrow> Inl err
         | Inr loop_skip_edge \<Rightarrow>
             (case first_by_target (\<lambda>n. n \<noteq> [Some ''post-loop'']) g es of
                Inl err \<Rightarrow> Inl err
              | Inr loop_entry_edge \<Rightarrow>
                  (case edge_then_target g loop_entry_edge of
                     Inl err \<Rightarrow> Inl err
                   | Inr r \<Rightarrow> Inr [[Edge loop_skip_edge], r])))
      else if nm = [Some ''conditional''] \<or> nm = [Some ''try-catch''] then head_rules g es
      else if nm = [Some ''post-conditional''] then
        (case target_name_changed g (es ! 0) of
           Inl err \<Rightarrow> Inl err
         | Inr t0 \<Rightarrow>
             if t0 = [Some ''loop''] then
               (case edge_then_target g (es ! 0) of
                  Inl err \<Rightarrow> Inl err
                | Inr r \<Rightarrow> if length es < 2 then Inl IndexError else Inr [r, [Edge (es ! 1)]])
             else
               (case stop_or_continue [''post-conditional''] g (es ! 0) of
                  Inl err \<Rightarrow> Inl err
                | Inr r \<Rightarrow> Inr [r]))
      else
        (case stop_or_continue [''post-conditional'', ''post-loop'', ''post-try-catch''] g (es ! 0) of
           Inl err \<Rightarrow> Inl err
         | Inr r \<Rightarrow> Inr [r]))"

text \<open>
  The loop over \<^verbatim>\<open>self.vertices\<close>; \<open>v\<close> is the position of the first vertex that is
  left, \<open>final_map\<close> the dictionary so far.
\<close>

fun derive_from ::
  "CFG \<Rightarrow> nat \<Rightarrow> CFGVertex list \<Rightarrow> (nat \<rightharpoonup> symbol list list) \<Rightarrow> error + (nat \<rightharpoonup> symbol list list)" where
  "derive_from g v [] final_map = Inr final_map"
| "derive_from g v (vertex # left) final_map =
     (case vertex_rules g v of
        Inl err \<Rightarrow> Inl err
      | Inr rules \<Rightarrow> derive_from g (Suc v) left (final_map(v \<mapsto> rules)))"

definition derive_grammar :: "CFG \<Rightarrow> error + (nat \<rightharpoonup> symbol list list)" where
  "derive_grammar g = derive_from g 0 (vertices g) Map.empty"

section \<open>The monitoring event consumer (init_verification.py)\<close>

subsection \<open>Values, atoms and monitors\<close>

text \<open>
  The dynamically typed values that events carry. A \<^verbatim>\<open>datetime\<close> is its position on the
  time line. \<^verbatim>\<open>x.isoformat()\<close> exists on a datetime only; its result stands for the
  same instant.
\<close>

datatype pyval = PNone | PInt int | PStr string | PDatetime int

fun isoformat :: "pyval \<Rightarrow> error + int" where
  "isoformat (PDatetime t) = Inr t"
| "isoformat _ = Inl AttributeError"

text \<open>\<^verbatim>\<open>needle in haystack\<close> for strings.\<close>

fun is_substring :: "string \<Rightarrow> string \<Rightarrow> bool" where
  "is_substring needle [] = (needle = [])"
| "is_substring needle (c # cs) = (take (length needle) (c # cs) = needle \<or> is_substring needle cs)"

text \<open>
  Modelled from the spec: the formula module (\<^verbatim>\<open>formula_tree\<close>, with
  \<^verbatim>\<open>get_base_variable\<close>) is not among the sources. An atom is a single-variable atom
  with its base variable, a mixed atom with the list of its base variables, or a negation
  (\<^verbatim>\<open>LogicalNot\<close>); \<^verbatim>\<open>lnot\<close> wraps an atom into a negation. The compiled property
  holds the list of bind variables and the list of atoms.
\<close>

datatype atom = SingleAtom string | MixedAtom "string list" | NotAtom atom

fun is_mixed_atom :: "atom \<Rightarrow> bool" where
  "is_mixed_atom (MixedAtom vs) = True"
| "is_mixed_atom _ = False"

fun is_LogicalNot :: "atom \<Rightarrow> bool" where
  "is_LogicalNot (NotAtom a) = True"
| "is_LogicalNot _ = False"

text \<open>\<^verbatim>\<open>get_base_variable(atom)\<close>: a list for a mixed atom, one variable otherwise.\<close>

fun get_base_variables :: "atom \<Rightarrow> string list" where
  "get_base_variables (SingleAtom v) = [v]"
| "get_base_variables (MixedAtom vs) = vs"
| "get_base_variables (NotAtom a) = get_base_variables a"

record formula_structure =
  bind_variables :: "string list"
  formula_atoms :: "atom list"

text \<open>\<^verbatim>\<open>xs.index(x)\<close>: ValueError when \<open>x\<close> is not in the list.\<close>

fun index_of :: "'a list \<Rightarrow> 'a \<Rightarrow> error + nat" where
  "index_of [] x = Inl ValueError"
| "index_of (y # ys) x =
     (if x = y then Inr 0 else (case index_of ys x of Inl e \<Rightarrow> Inl e | Inr n \<Rightarrow> Inr (Suc n)))"

text \<open>
  A key of the dictionary \<^verbatim>\<open>monitor._state._state\<close>. The spec gives it atom indices as
  keys; the source also indexes it with an atom object, which is a different key.
\<close>

datatype state_key = AtomIndex nat | AtomObject atom

text \<open>
  Modelled from the spec: the fields of a monitor that the consumer reads and writes.
  The three nested dictionaries are keyed by atom index and then by sub-index.
\<close>

record monitor =
  formula_verdict :: "bool option"
  monitor_state :: "(state_key \<times> bool option) list"
  monitor_instantiation_time :: "int list"
  atom_to_observation :: "(nat \<times> (nat \<times> pyval) list) list"
  atom_to_program_path :: "(nat \<times> (nat \<times> pyval) list) list"
  atom_to_state_dict :: "(nat \<times> (nat \<times> pyval) list) list"
  collapsing_atom_index :: "nat option"
  collapsing_atom_sub_index :: "nat option"

text \<open>The arguments of \<^verbatim>\<open>process_atom_and_value\<close>.\<close>

record observation =
  obs_atom :: atom
  obs_start :: pyval
  obs_end :: pyval
  obs_value :: pyval
  obs_atom_index :: nat
  obs_atom_sub_index :: nat
  obs_inst_point_id :: nat
  obs_program_path :: nat
  obs_state_dict :: pyval

text \<open>
  The operations of the formula module that the consumer calls. Their code is not among
  the sources, so they are parameters: \<open>new_monitor\<close> gets the compiled property and the
  current time.
\<close>

record formula_module =
  new_monitor :: "formula_structure \<Rightarrow> int \<Rightarrow> monitor"
  check_optimised :: "atom \<Rightarrow> monitor \<Rightarrow> error + monitor"
  check_atom_truth_value :: "atom \<Rightarrow> nat \<Rightarrow> nat \<Rightarrow> monitor \<Rightarrow> error + monitor"
  process_atom_and_value :: "observation \<Rightarrow> monitor \<Rightarrow> error + monitor"

subsection \<open>Verdict reports and the verdict sink\<close>

text \<open>
  Modelled from the spec: the class \<^verbatim>\<open>VerdictReport\<close> is not among the sources. It
  is an accumulator that maps a static quantifier-binding index to the list of verdict
  tuples registered for it; \<^verbatim>\<open>add_verdict\<close> stamps a tuple with the current time,
  \<^verbatim>\<open>reset\<close> empties the report.
\<close>

record verdict =
  verdict_value :: "bool option"
  verdict_time :: int
  verdict_observations :: "(nat \<times> (nat \<times> pyval) list) list"
  verdict_program_paths :: "(nat \<times> (nat \<times> pyval) list) list"
  verdict_collapsing_atom :: nat
  verdict_collapsing_sub_index :: "nat option"
  verdict_state_dicts :: "(nat \<times> (nat \<times> pyval) list) list"

type_synonym VerdictReport = "(nat \<times> verdict list) list"

definition add_verdict :: "nat \<Rightarrow> verdict \<Rightarrow> VerdictReport \<Rightarrow> VerdictReport" where
  "add_verdict bind_space_index v report =
     AList.update bind_space_index
       ((case map_of report bind_space_index of None \<Rightarrow> [] | Some vs \<Rightarrow> vs) @ [v]) report"

text \<open>
  A request to the verdict server: the function-call record of
  \<^verbatim>\<open>send_function_call_data\<close> (transaction time, time of call, end time, function name,
  program path), the verdict report of \<^verbatim>\<open>send_verdict_report\<close> (function call id,
  function id, the verdicts with their binding indices, property hash), or test data.
\<close>

datatype request =
    InsertFunctionCallData int int int string "int list"
  | RegisterVerdicts pyval pyval "(nat \<times> verdict) list" string
  | InsertTestData string string int int

text \<open>
  The verdict server is a parameter: what \<^verbatim>\<open>requests.post\<close> does with a request, an
  exception or the JSON object of the response.
\<close>

type_synonym server = "request \<Rightarrow> error + (string \<times> pyval) list"

subsection \<open>PropertyMapGroup and the state of the consumer\<close>

text \<open>
  The fields of a \<^verbatim>\<open>PropertyMapGroup\<close> that the consumer uses (the binding space and
  \<^verbatim>\<open>static_bindings_to_monitor_states\<close> are stored at start-up and never read by it).
\<close>

record PropertyMapGroup =
  formula_structure :: formula_structure
  static_qd_to_monitors :: "(nat \<times> monitor list) list"
  verdict_report :: VerdictReport
  latest_time_of_call :: pyval
  program_path :: "int list"

text \<open>
  The state that \<^verbatim>\<open>consumption_thread_function\<close> works on: \<^verbatim>\<open>function_to_maps\<close> of
  the verification object, the global \<^verbatim>\<open>TEST_FRAMEWORK\<close>, the flags and the transaction
  of the loop, the requests posted so far and the clock behind \<^verbatim>\<open>datetime.now()\<close>. Two
  local variables of the function keep their value from one event to the next and are read
  in places where the current event has not assigned them: \<^verbatim>\<open>maps\<close> (a reference to a
  group, given by function name and property hash) and \<^verbatim>\<open>atom_sub_index\<close>; \<open>None\<close> is
  an unbound variable.
\<close>

record consumer =
  function_to_maps :: "(string \<times> (string \<times> PropertyMapGroup) list) list"
  test_framework :: string
  INACTIVE_MONITORING :: bool
  transaction :: pyval
  continue_monitoring :: bool
  posted :: "request list"
  now :: int
  local_maps :: "(string \<times> string) option"
  local_atom_sub_index :: "nat option"

text \<open>The events of the queue, one constructor for each shape of tuple.\<close>

datatype event =
    EndMonitoring
  | InactiveMonitoringStart
  | InactiveMonitoringStop
  | TestTransaction pyval
  | Function "string list" string string pyval
  | Trigger string string nat nat
  | Path string string int
  | Instrument string string "nat list" nat nat "nat list" pyval pyval pyval int "pyval option"
  | TestStatus string string bool bool pyval pyval string

text \<open>\<^verbatim>\<open>function_to_maps[function_name][property_hash]\<close>\<close>

definition get_maps :: "consumer \<Rightarrow> string \<Rightarrow> string \<Rightarrow> error + PropertyMapGroup" where
  "get_maps w function_name property_hash =
     (case map_of (function_to_maps w) function_name of
        None \<Rightarrow> Inl KeyError
      | Some groups \<Rightarrow>
          (case map_of groups property_hash of None \<Rightarrow> Inl KeyError | Some maps \<Rightarrow> Inr maps))"

text \<open>A write to the fields of the group that a reference points to.\<close>

definition put_maps :: "string \<Rightarrow> string \<Rightarrow> PropertyMapGroup \<Rightarrow> consumer \<Rightarrow> consumer" where
  "put_maps function_name property_hash maps w =
     w\<lparr> function_to_maps :=
          AList.update function_name
            (AList.update property_hash maps
               (case map_of (function_to_maps w) function_name of None \<Rightarrow> [] | Some groups \<Rightarrow> groups))
            (function_to_maps w) \<rparr>"

text \<open>
  \<^verbatim>\<open>function_to_maps[function_name][function_to_maps[function_name].keys()[0]]\<close>.
  The groups of a function are listed in the order in which the dictionary gives its keys,
  so that the first pair of the list is the group of \<^verbatim>\<open>keys()[0]\<close>.
\<close>

definition first_maps :: "consumer \<Rightarrow> string \<Rightarrow> error + PropertyMapGroup" where
  "first_maps w function_name =
     (case map_of (function_to_maps w) function_name of
        None \<Rightarrow> Inl KeyError
      | Some [] \<Rightarrow> Inl IndexError
      | Some ((h, maps) # groups) \<Rightarrow> Inr maps)"

subsection \<open>send_function_call_data and send_verdict_report\<close>

text \<open>
  \<^verbatim>\<open>send_function_call_data\<close>: the three \<^verbatim>\<open>isoformat()\<close> calls in the order of the
  dictionary display, then the post, whose exception is not caught. The result is the
  response and the state with the request recorded.
\<close>

definition send_function_call_data ::
  "server \<Rightarrow> string \<Rightarrow> pyval \<Rightarrow> pyval \<Rightarrow> int list \<Rightarrow> pyval \<Rightarrow> consumer
    \<Rightarrow> error + ((string \<times> pyval) list \<times> consumer)" where
  "send_function_call_data srv function_name time_of_call end_time_of_call path transaction_time w =
     (case isoformat transaction_time of
        Inl e \<Rightarrow> Inl e
      | Inr tt \<Rightarrow>
          (case isoformat time_of_call of
             Inl e \<Rightarrow> Inl e
           | Inr tc \<Rightarrow>
               (case isoformat end_time_of_call of
                  Inl e \<Rightarrow> Inl e
                | Inr te \<Rightarrow>
                    (case srv (InsertFunctionCallData tt tc te function_name path) of
                       Inl e \<Rightarrow> Inl e
                     | Inr insertion_result \<Rightarrow>
                         Inr (insertion_result,
                              w\<lparr> posted := posted w @
                                   [InsertFunctionCallData tt tc te function_name path] \<rparr>)))))"

text \<open>
  \<^verbatim>\<open>send_verdict_report\<close>: an exception of the post is caught and logged, so the request
  is recorded whatever the server does.
\<close>

definition send_verdict_report :: "VerdictReport \<Rightarrow> string \<Rightarrow> pyval \<Rightarrow> pyval \<Rightarrow> consumer \<Rightarrow> consumer" where
  "send_verdict_report report property_hash function_id function_call_id w =
     w\<lparr> posted := posted w @
          [RegisterVerdicts function_call_id function_id
             (concat (map (\<lambda>(bind_space_index, verdict_list).
                              map (\<lambda>v. (bind_space_index, v)) verdict_list) report))
             property_hash] \<rparr>"

subsection \<open>The function-end and function-start handlers\<close>

text \<open>
  The loops over \<^verbatim>\<open>static_qd_to_monitors\<close> that register the verdict of every monitor
  with a collapsing atom; each \<^verbatim>\<open>add_verdict\<close> reads the clock.
\<close>

fun register_monitors :: "nat \<Rightarrow> monitor list \<Rightarrow> int \<Rightarrow> VerdictReport \<Rightarrow> VerdictReport" where
  "register_monitors static_qd_index [] t report = report"
| "register_monitors static_qd_index (m # ms) t report =
     register_monitors static_qd_index ms t
       (case collapsing_atom_index m of
          None \<Rightarrow> report
        | Some a \<Rightarrow>
            add_verdict static_qd_index
              \<lparr> verdict_value = formula_verdict m, verdict_time = t,
                verdict_observations = atom_to_observation m,
                verdict_program_paths = atom_to_program_path m,
                verdict_collapsing_atom = a,
                verdict_collapsing_sub_index = collapsing_atom_sub_index m,
                verdict_state_dicts = atom_to_state_dict m \<rparr>
              report)"

fun register_verdicts :: "(nat \<times> monitor list) list \<Rightarrow> int \<Rightarrow> VerdictReport \<Rightarrow> VerdictReport" where
  "register_verdicts [] t report = report"
| "register_verdicts ((static_qd_index, ms) # rest) t report =
     register_verdicts rest t (register_monitors static_qd_index ms t report)"

text \<open>\<^verbatim>\<open>insertion_data[key]\<close>\<close>

definition response_field :: "(string \<times> pyval) list \<Rightarrow> string \<Rightarrow> error + pyval" where
  "response_field insertion_data k =
     (case map_of insertion_data k of None \<Rightarrow> Inl KeyError | Some v \<Rightarrow> Inr v)"

text \<open>The loop \<^verbatim>\<open>for property_hash in property_hash_list\<close> of the end handler.\<close>

fun end_properties ::
  "string list \<Rightarrow> string \<Rightarrow> (string \<times> pyval) list \<Rightarrow> consumer \<Rightarrow> error + consumer" where
  "end_properties [] function_name insertion_data w = Inr w"
| "end_properties (property_hash # hashes) function_name insertion_data w =
     (case get_maps w function_name property_hash of
        Inl e \<Rightarrow> Inl e
      | Inr maps \<Rightarrow>
          (case response_field insertion_data ''function_id'' of
             Inl e \<Rightarrow> Inl e
           | Inr function_id \<Rightarrow>
               (case response_field insertion_data ''function_call_id'' of
                  Inl e \<Rightarrow> Inl e
                | Inr function_call_id \<Rightarrow>
                    end_properties hashes function_name insertion_data
                      (put_maps function_name property_hash
                         (maps\<lparr> static_qd_to_monitors := [], verdict_report := [],
                                latest_time_of_call := PNone \<rparr>)
                         (send_verdict_report
                            (register_verdicts (static_qd_to_monitors maps) (now w) (verdict_report maps))
                            property_hash function_id function_call_id
                            (w\<lparr> local_maps := Some (function_name, property_hash) \<rparr>))))))"

text \<open>
  The end handler. Outside test mode the transaction time is \<^verbatim>\<open>top_pair[3]\<close>, which is
  the scope string of the event.
\<close>

definition function_end ::
  "server \<Rightarrow> string list \<Rightarrow> string \<Rightarrow> string \<Rightarrow> pyval \<Rightarrow> consumer \<Rightarrow> error + consumer" where
  "function_end srv property_hash_list function_name scope_event end_time w =
     (case first_maps w function_name of
        Inl e \<Rightarrow> Inl e
      | Inr maps0 \<Rightarrow>
          (case send_function_call_data srv function_name (latest_time_of_call maps0) end_time
                  (program_path maps0)
                  (if is_substring ''yes'' (test_framework w) then transaction w else PStr scope_event)
                  w of
             Inl e \<Rightarrow> Inl e
           | Inr (insertion_data, w1) \<Rightarrow>
               end_properties property_hash_list function_name insertion_data w1))"

text \<open>The loop \<^verbatim>\<open>for property_hash in property_hash_list\<close> of the start handler.\<close>

fun start_properties :: "string list \<Rightarrow> string \<Rightarrow> pyval \<Rightarrow> consumer \<Rightarrow> error + consumer" where
  "start_properties [] function_name timestamp w = Inr w"
| "start_properties (property_hash # hashes) function_name timestamp w =
     (case get_maps w function_name property_hash of
        Inl e \<Rightarrow> Inl e
      | Inr maps \<Rightarrow>
          start_properties hashes function_name timestamp
            (put_maps function_name property_hash
               (maps\<lparr> static_qd_to_monitors := [], verdict_report := [],
                      latest_time_of_call := timestamp \<rparr>)
               (w\<lparr> local_maps := Some (function_name, property_hash) \<rparr>)))"

text \<open>
  The start handler. After the loop the handler reads the local variable \<^verbatim>\<open>maps\<close>
  (to log the start time) and then resets the program path of the group that \<^verbatim>\<open>maps\<close>
  refers to: the statement \<^verbatim>\<open>maps.program_path = []\<close> stands after the loop, not in it.
\<close>

definition function_start :: "string list \<Rightarrow> string \<Rightarrow> pyval \<Rightarrow> consumer \<Rightarrow> error + consumer" where
  "function_start property_hash_list function_name timestamp w =
     (case start_properties property_hash_list function_name timestamp w of
        Inl e \<Rightarrow> Inl e
      | Inr w1 \<Rightarrow>
          (case local_maps w1 of
             None \<Rightarrow> Inl UnboundLocalError
           | Some (f, h) \<Rightarrow>
               (case get_maps w1 f h of
                  Inl e \<Rightarrow> Inl e
                | Inr maps \<Rightarrow> Inr (put_maps f h (maps\<lparr> program_path := [] \<rparr>) w1))))"

subsection \<open>The trigger handler\<close>

text \<open>Reads and writes of the nested dictionaries: KeyError on a missing key.\<close>

definition nested_get :: "(nat \<times> (nat \<times> 'v) list) list \<Rightarrow> nat \<Rightarrow> nat \<Rightarrow> error + 'v" where
  "nested_get d k s =
     (case map_of d k of
        None \<Rightarrow> Inl KeyError
      | Some inner \<Rightarrow> (case map_of inner s of None \<Rightarrow> Inl KeyError | Some v \<Rightarrow> Inr v))"

definition nested_set ::
  "(nat \<times> (nat \<times> 'v) list) list \<Rightarrow> nat \<Rightarrow> nat \<Rightarrow> 'v \<Rightarrow> error + (nat \<times> (nat \<times> 'v) list) list" where
  "nested_set d k s v =
     (case map_of d k of
        None \<Rightarrow> Inl KeyError
      | Some inner \<Rightarrow> Inr (AList.update k (AList.update s v inner) d))"

text \<open>
  The three assignments that copy the observation, the program path and the state of one
  slot from the old monitor to the new one.
\<close>

definition copy_slot :: "nat \<Rightarrow> nat \<Rightarrow> monitor \<Rightarrow> monitor \<Rightarrow> error + monitor" where
  "copy_slot atom_index sub_index old new =
     (case nested_get (atom_to_observation old) atom_index sub_index of
        Inl e \<Rightarrow> Inl e
      | Inr ob \<Rightarrow>
     (case nested_set (atom_to_observation new) atom_index sub_index ob of
        Inl e \<Rightarrow> Inl e
      | Inr a2o \<Rightarrow>
     (case nested_get (atom_to_program_path old) atom_index sub_index of
        Inl e \<Rightarrow> Inl e
      | Inr pp \<Rightarrow>
     (case nested_set (atom_to_program_path new) atom_index sub_index pp of
        Inl e \<Rightarrow> Inl e
      | Inr a2p \<Rightarrow>
     (case nested_get (atom_to_state_dict old) atom_index sub_index of
        Inl e \<Rightarrow> Inl e
      | Inr sd \<Rightarrow>
     (case nested_set (atom_to_state_dict new) atom_index sub_index sd of
        Inl e \<Rightarrow> Inl e
      | Inr a2s \<Rightarrow>
          Inr (new\<lparr> atom_to_observation := a2o, atom_to_program_path := a2p,
                    atom_to_state_dict := a2s \<rparr>)))))))"

text \<open>
  \<^verbatim>\<open>filter(lambda var: bind_variables.index(var) < bind_variable_index, base_variables)\<close>
\<close>

fun relevant_base_variables :: "string list \<Rightarrow> nat \<Rightarrow> string list \<Rightarrow> error + string list" where
  "relevant_base_variables bvs k [] = Inr []"
| "relevant_base_variables bvs k (var # vars) =
     (case index_of bvs var of
        Inl e \<Rightarrow> Inl e
      | Inr i \<Rightarrow>
          (case relevant_base_variables bvs k vars of
             Inl e \<Rightarrow> Inl e
           | Inr rs \<Rightarrow> Inr (if i < k then var # rs else rs)))"

text \<open>
  The loop \<^verbatim>\<open>for sub_index in relevant_sub_indices\<close> of the mixed-atom branch: the
  dictionaries of the new monitor get an entry for the atom when
  \<^verbatim>\<open>atom_to_observation.get(atom_index)\<close> is missing or empty, then the slot is copied.
\<close>

fun copy_sub_indices :: "nat \<Rightarrow> nat list \<Rightarrow> monitor \<Rightarrow> monitor \<Rightarrow> error + monitor" where
  "copy_sub_indices atom_index [] old new = Inr new"
| "copy_sub_indices atom_index (sub_index # subs) old new =
     (case copy_slot atom_index sub_index old
             (if (case map_of (atom_to_observation new) atom_index of None \<Rightarrow> True | Some d \<Rightarrow> d = [])
              then new\<lparr> atom_to_observation := AList.update atom_index [] (atom_to_observation new),
                        atom_to_program_path := AList.update atom_index [] (atom_to_program_path new),
                        atom_to_state_dict := AList.update atom_index [] (atom_to_state_dict new) \<rparr>
              else new) of
        Inl e \<Rightarrow> Inl e
      | Inr new' \<Rightarrow> copy_sub_indices atom_index subs old new')"

text \<open>\<^verbatim>\<open>map(lambda var: base_variables.index(var), relevant_base_variables)\<close>\<close>

fun sub_indices :: "string list \<Rightarrow> string list \<Rightarrow> error + nat list" where
  "sub_indices base_variables [] = Inr []"
| "sub_indices base_variables (var # vars) =
     (case index_of base_variables var of
        Inl e \<Rightarrow> Inl e
      | Inr i \<Rightarrow> (case sub_indices base_variables vars of Inl e \<Rightarrow> Inl e | Inr is \<Rightarrow> Inr (i # is)))"

text \<open>\<^verbatim>\<open>d[key]\<close> on the state dictionary of a monitor.\<close>

definition state_lookup :: "monitor \<Rightarrow> state_key \<Rightarrow> error + bool option" where
  "state_lookup m key = (case map_of (monitor_state m) key of None \<Rightarrow> Inl KeyError | Some v \<Rightarrow> Inr v)"

text \<open>
  The body of the loop \<^verbatim>\<open>for atom_index in monitor._state._state\<close>, for one key of the
  old monitor's state. \<^verbatim>\<open>atoms[atom_index]\<close> raises TypeError when the key is not an
  integer and IndexError when it is out of range. The mixed-atom branch ends with a call
  that reads the local variable \<^verbatim>\<open>atom_sub_index\<close>, which only the instrument handler
  assigns. The other branch tests \<^verbatim>\<open>monitor._state._state[atom]\<close>, with the atom object
  as the key, and then reads \<^verbatim>\<open>monitor._state._state[atom_index]\<close>.
\<close>

definition copy_atom ::
  "formula_module \<Rightarrow> formula_structure \<Rightarrow> nat \<Rightarrow> nat option \<Rightarrow> monitor \<Rightarrow> state_key \<Rightarrow> monitor
    \<Rightarrow> error + monitor" where
  "copy_atom fm fs bind_variable_index atom_sub_index old key new =
     (case key of
        AtomObject a \<Rightarrow> Inl TypeError
      | AtomIndex atom_index \<Rightarrow>
          if atom_index \<ge> length (formula_atoms fs) then Inl IndexError
          else
            (let atom = formula_atoms fs ! atom_index in
             if is_LogicalNot atom then Inr new
             else if is_mixed_atom atom then
               (case relevant_base_variables (bind_variables fs) bind_variable_index
                       (get_base_variables atom) of
                  Inl e \<Rightarrow> Inl e
                | Inr relevant \<Rightarrow>
                    (case sub_indices (get_base_variables atom) relevant of
                       Inl e \<Rightarrow> Inl e
                     | Inr relevant_sub_indices \<Rightarrow>
                         (case copy_sub_indices atom_index relevant_sub_indices old new of
                            Inl e \<Rightarrow> Inl e
                          | Inr new1 \<Rightarrow>
                              (case atom_sub_index of
                                 None \<Rightarrow> Inl UnboundLocalError
                               | Some s \<Rightarrow> check_atom_truth_value fm atom atom_index s new1))))
             else
               (case index_of (bind_variables fs) (hd (get_base_variables atom)) of
                  Inl e \<Rightarrow> Inl e
                | Inr position \<Rightarrow>
                    if \<not> position < bind_variable_index then Inr new
                    else
                      (case state_lookup old (AtomObject atom) of
                         Inl e \<Rightarrow> Inl e
                       | Inr by_atom \<Rightarrow>
                           if by_atom = None then Inr new
                           else
                             (case state_lookup old (AtomIndex atom_index) of
                                Inl e \<Rightarrow> Inl e
                              | Inr truth \<Rightarrow>
                                  (case (case truth of
                                           Some True \<Rightarrow> check_optimised fm atom new
                                         | Some False \<Rightarrow> check_optimised fm (NotAtom atom) new
                                         | None \<Rightarrow> Inr new) of
                                     Inl e \<Rightarrow> Inl e
                                   | Inr new1 \<Rightarrow> copy_slot atom_index 0 old new1))))))"

text \<open>The loop over the keys of the old monitor's state.\<close>

fun copy_atoms ::
  "formula_module \<Rightarrow> formula_structure \<Rightarrow> nat \<Rightarrow> nat option \<Rightarrow> monitor \<Rightarrow> state_key list \<Rightarrow> monitor
    \<Rightarrow> error + monitor" where
  "copy_atoms fm fs k atom_sub_index old [] new = Inr new"
| "copy_atoms fm fs k atom_sub_index old (key # keys) new =
     (case copy_atom fm fs k atom_sub_index old key new of
        Inl e \<Rightarrow> Inl e
      | Inr new1 \<Rightarrow> copy_atoms fm fs k atom_sub_index old keys new1)"

text \<open>
  The clone of one monitor: a new monitor whose timestamp sequence is the prefix of length
  \<open>k\<close> of the old one extended by the current time, then the copy loop.
\<close>

definition clone_monitor ::
  "formula_module \<Rightarrow> formula_structure \<Rightarrow> nat \<Rightarrow> nat option \<Rightarrow> int \<Rightarrow> monitor \<Rightarrow> error + monitor" where
  "clone_monitor fm fs k atom_sub_index t old =
     copy_atoms fm fs k atom_sub_index old (map fst (monitor_state old))
       ((new_monitor fm fs t)\<lparr> monitor_instantiation_time :=
                                  take k (monitor_instantiation_time old) @ [t] \<rparr>)"

text \<open>
  The loop \<^verbatim>\<open>for monitor in static_qd_to_monitors[static_qd_index]\<close> for a bind
  variable index \<open>k > 0\<close>. The arguments after the list of monitors that are left are the
  monitors already passed (some with an extended timestamp sequence),
  \<^verbatim>\<open>subsequences_processed\<close> and \<^verbatim>\<open>new_monitors\<close>. The result is the list that
  \<^verbatim>\<open>static_qd_to_monitors[static_qd_index] += new_monitors\<close> leaves.
\<close>

fun process_monitors ::
  "formula_module \<Rightarrow> formula_structure \<Rightarrow> nat \<Rightarrow> nat option \<Rightarrow> int \<Rightarrow> monitor list \<Rightarrow> monitor list
    \<Rightarrow> int list list \<Rightarrow> monitor list \<Rightarrow> error + monitor list" where
  "process_monitors fm fs k atom_sub_index t [] passed subsequences_processed new_monitors =
     Inr (passed @ new_monitors)"
| "process_monitors fm fs k atom_sub_index t (m # ms) passed subsequences_processed new_monitors =
     (if length (monitor_instantiation_time m) = k + 1 then
        (if take k (monitor_instantiation_time m) \<in> set subsequences_processed
         then process_monitors fm fs k atom_sub_index t ms (passed @ [m]) subsequences_processed
                new_monitors
         else (case clone_monitor fm fs k atom_sub_index t m of
                 Inl e \<Rightarrow> Inl e
               | Inr new \<Rightarrow>
                   process_monitors fm fs k atom_sub_index t ms (passed @ [m])
                     (subsequences_processed @ [take k (monitor_instantiation_time m)])
                     (new_monitors @ [new])))
      else if length (monitor_instantiation_time m) = k then
        process_monitors fm fs k atom_sub_index t ms
          (passed @ [m\<lparr> monitor_instantiation_time := monitor_instantiation_time m @ [t] \<rparr>])
          subsequences_processed new_monitors
      else process_monitors fm fs k atom_sub_index t ms (passed @ [m]) subsequences_processed
             new_monitors)"

text \<open>
  The trigger handler, on the group \<open>maps\<close> of the event; the result is the new
  \<^verbatim>\<open>static_qd_to_monitors\<close>. For bind variable 0 a fresh monitor is appended to the
  bucket (which is created when it is missing); otherwise the bucket must exist.
\<close>

definition trigger ::
  "formula_module \<Rightarrow> nat \<Rightarrow> nat \<Rightarrow> nat option \<Rightarrow> int \<Rightarrow> PropertyMapGroup
    \<Rightarrow> error + (nat \<times> monitor list) list" where
  "trigger fm static_qd_index bind_variable_index atom_sub_index t maps =
     (if bind_variable_index = 0 then
        Inr (AList.update static_qd_index
               ((case map_of (static_qd_to_monitors maps) static_qd_index of
                   None \<Rightarrow> []
                 | Some ms \<Rightarrow> ms) @ [new_monitor fm (formula_structure maps) t])
               (static_qd_to_monitors maps))
      else
        (case map_of (static_qd_to_monitors maps) static_qd_index of
           None \<Rightarrow> Inl KeyError
         | Some ms \<Rightarrow>
             (case process_monitors fm (formula_structure maps) bind_variable_index atom_sub_index t
                     ms [] [] [] of
                Inl e \<Rightarrow> Inl e
              | Inr ms' \<Rightarrow> Inr (AList.update static_qd_index ms' (static_qd_to_monitors maps)))))"

subsection \<open>The instrument handler\<close>

text \<open>The loop over the monitors of one bucket; each call updates its monitor in place.\<close>

fun observe_all :: "formula_module \<Rightarrow> observation \<Rightarrow> monitor list \<Rightarrow> error + monitor list" where
  "observe_all fm ob [] = Inr []"
| "observe_all fm ob (m # ms) =
     (case process_atom_and_value fm ob m of
        Inl e \<Rightarrow> Inl e
      | Inr m' \<Rightarrow> (case observe_all fm ob ms of Inl e \<Rightarrow> Inl e | Inr ms' \<Rightarrow> Inr (m' # ms')))"

text \<open>
  The loop over \<^verbatim>\<open>zip(static_qd_indices, instrumentation_point_db_ids)\<close>; \<open>ob\<close> holds
  the fields of the observation that are the same for every pair.
\<close>

fun instrument ::
  "formula_module \<Rightarrow> observation \<Rightarrow> (nat \<times> nat) list \<Rightarrow> PropertyMapGroup \<Rightarrow> error + PropertyMapGroup" where
  "instrument fm ob [] maps = Inr maps"
| "instrument fm ob ((static_qd_index, inst_point_id) # pairs) maps =
     (if obs_atom_index ob \<ge> length (formula_atoms (formula_structure maps)) then Inl IndexError
      else
        (case map_of (static_qd_to_monitors maps) static_qd_index of
           None \<Rightarrow> instrument fm ob pairs maps
         | Some ms \<Rightarrow>
             (case observe_all fm
                     (ob\<lparr> obs_atom := formula_atoms (formula_structure maps) ! obs_atom_index ob,
                          obs_inst_point_id := inst_point_id \<rparr>) ms of
                Inl e \<Rightarrow> Inl e
              | Inr ms' \<Rightarrow>
                  instrument fm ob pairs
                    (maps\<lparr> static_qd_to_monitors :=
                             AList.update static_qd_index ms' (static_qd_to_monitors maps) \<rparr>))))"

subsection \<open>The loop of consumption_thread_function\<close>

text \<open>
  The events that carry a property hash first: the group is looked up (and kept in the
  local variable \<^verbatim>\<open>maps\<close>), then the handler for the instrument type runs.
\<close>

definition property_event ::
  "formula_module \<Rightarrow> server \<Rightarrow> event \<Rightarrow> string \<Rightarrow> string \<Rightarrow> consumer \<Rightarrow> error + consumer" where
  "property_event fm srv top_pair property_hash function_name w =
     (case get_maps w function_name property_hash of
        Inl e \<Rightarrow> Inl e
      | Inr maps \<Rightarrow>
          (let w1 = w\<lparr> local_maps := Some (function_name, property_hash) \<rparr> in
           case top_pair of
             Trigger h f static_qd_index bind_variable_index \<Rightarrow>
               (case trigger fm static_qd_index bind_variable_index (local_atom_sub_index w) (now w) maps of
                  Inl e \<Rightarrow> Inl e
                | Inr monitors \<Rightarrow>
                    Inr (put_maps function_name property_hash
                           (maps\<lparr> static_qd_to_monitors := monitors \<rparr>)
                           (w1\<lparr> now := now w + 1 \<rparr>)))
           | Path h f branch_label \<Rightarrow>
               Inr (put_maps function_name property_hash
                      (maps\<lparr> program_path := program_path maps @ [branch_label] \<rparr>) w1)
           | Instrument h f static_qd_indices atom_index atom_sub_index inst_point_ids
               observation_time observation_end_time observed_value thread_id state_dict \<Rightarrow>
               (case instrument fm
                       \<lparr> obs_atom = SingleAtom [], obs_start = observation_time,
                         obs_end = observation_end_time, obs_value = observed_value,
                         obs_atom_index = atom_index, obs_atom_sub_index = atom_sub_index,
                         obs_inst_point_id = 0, obs_program_path = length (program_path maps),
                         obs_state_dict = (case state_dict of None \<Rightarrow> PNone | Some d \<Rightarrow> d) \<rparr>
                       (zip static_qd_indices inst_point_ids) maps of
                  Inl e \<Rightarrow> Inl e
                | Inr maps' \<Rightarrow>
                    Inr (put_maps function_name property_hash maps'
                           (w1\<lparr> local_atom_sub_index := Some atom_sub_index \<rparr>)))
           | TestStatus h f failures errors start_test_time end_test_time test_name \<Rightarrow>
               (case isoformat start_test_time of
                  Inl e \<Rightarrow> Inl e
                | Inr ts \<Rightarrow>
                    (case isoformat end_test_time of
                       Inl e \<Rightarrow> Inl e
                     | Inr te \<Rightarrow>
                         (case srv (InsertTestData test_name
                                      (if failures then ''Fail'' else if errors then ''Error'' else ''Success'')
                                      ts te) of
                            Inl e \<Rightarrow> Inl e
                          | Inr response \<Rightarrow>
                              Inr (w1\<lparr> posted := posted w1 @
                                     [InsertTestData test_name
                                        (if failures then ''Fail'' else if errors then ''Error'' else ''Success'')
                                        ts te] \<rparr>))))
           | _ \<Rightarrow> Inr w1))"

text \<open>
  One iteration of the loop, for the event \<^verbatim>\<open>top_pair\<close> taken from the queue. The
  test for \<^verbatim>\<open>end-monitoring\<close> comes first, before the test of the pause flag. A resume
  message that arrives while monitoring is not paused reaches the last branch, where
  \<^verbatim>\<open>top_pair[1:][0]\<close> raises IndexError on the one-element tuple.
\<close>

definition consume :: "formula_module \<Rightarrow> server \<Rightarrow> event \<Rightarrow> consumer \<Rightarrow> error + consumer" where
  "consume fm srv top_pair w =
     (case top_pair of
        EndMonitoring \<Rightarrow> Inr (w\<lparr> continue_monitoring := False \<rparr>)
      | _ \<Rightarrow>
          if INACTIVE_MONITORING w then
            (case top_pair of
               InactiveMonitoringStop \<Rightarrow> Inr (w\<lparr> INACTIVE_MONITORING := False \<rparr>)
             | _ \<Rightarrow> Inr w)
          else
            (case top_pair of
               InactiveMonitoringStart \<Rightarrow> Inr (w\<lparr> INACTIVE_MONITORING := True \<rparr>)
             | InactiveMonitoringStop \<Rightarrow> Inl IndexError
             | TestTransaction t \<Rightarrow> Inr (w\<lparr> transaction := t \<rparr>)
             | Function property_hash_list function_name scope_event timestamp \<Rightarrow>
                 if scope_event = ''end''
                 then function_end srv property_hash_list function_name scope_event timestamp w
                 else if scope_event = ''start''
                 then function_start property_hash_list function_name timestamp w
                 else Inr w
             | Trigger h f q k \<Rightarrow> property_event fm srv top_pair h f w
             | Path h f l \<Rightarrow> property_event fm srv top_pair h f w
             | Instrument h f qs a s ps t1 t2 v th sd \<Rightarrow> property_event fm srv top_pair h f w
             | TestStatus h f fl er t1 t2 n \<Rightarrow> property_event fm srv top_pair h f w
             | EndMonitoring \<Rightarrow> Inr (w\<lparr> continue_monitoring := False \<rparr>)))"

text \<open>
  The loop \<^verbatim>\<open>while continue_monitoring\<close> over the events that the queue delivers, in
  order; an exception of a handler ends the thread.
\<close>

fun consumption_thread_function ::
  "formula_module \<Rightarrow> server \<Rightarrow> event list \<Rightarrow> consumer \<Rightarrow> error + consumer" where
  "consumption_thread_function fm srv [] w = Inr w"
| "consumption_thread_function fm srv (top_pair # queue) w =
     (if continue_monitoring w
      then (case consume fm srv top_pair w of
              Inl e \<Rightarrow> Inl e
            | Inr w' \<Rightarrow> consumption_thread_function fm srv queue w')
      else Inr w)"

section \<open>Evaluation of the builder on concrete programs\<close>

text \<open>The definitions that the simplifier unfolds to run the builder and the grammar derivation.\<close>

lemmas build_defs = process_block_def CFG_init_def add_statement_def CFGEdge_init_def CFGVertex_init_def
  attach_def add_outgoing_edge_def set_target_state_def append_vertex_def branch_head_def synthetic_vertex_def
  control_edge_def if_pairs_def final_else_is_present_def end_conditional_def merge_branches_def surviving_def
  returns_or_raises_def set_merge_pointer_def log_branch_def log_branches_def for_head_def for_tail_def
  body_input_variables_def additional_after_def while_tail_def try_entries_def get_function_name_strings_def
  callee_chain.simps call_assignment_names_def target_name_def get_attr_name_string_def Let_def

lemmas grammar_defs = derive_grammar_def vertex_rules_def target_of_def target_name_changed_def
  first_by_target_def edge_then_target_def stop_or_continue_def rule_into_head_def synthetic_names_def Let_def

section \<open>Name extraction: results\<close>

text \<open>
  The node classes that \<^verbatim>\<open>get_reversed_string_list\<close> has no branch for and that
  \<^verbatim>\<open>get_attr_name_string\<close> does not answer with None by itself (as it does for the load
  context and for an index node).
\<close>

fun unsupported :: "expr \<Rightarrow> bool" where
  "unsupported (Num n) = True"
| "unsupported (Tuple elts) = True"
| "unsupported (OtherNode cs) = True"
| "unsupported _ = False"

fun is_Tuple :: "expr \<Rightarrow> bool" where
  "is_Tuple (Tuple elts) = True"
| "is_Tuple _ = False"

lemma unsupported_reversed: "unsupported obj \<Longrightarrow> get_reversed_string_list slot obj omit = Inr None"
  by (cases obj) simp_all

lemma unsupported_attr: "unsupported obj \<Longrightarrow> get_attr_name_string slot obj omit = Inl TypeError"
  by (cases obj) (simp_all add: get_attr_name_string_def)

lemma unsupported_edge:
  "unsupported obj \<Longrightarrow> \<not> (is_Call v \<and> is_Tuple obj) \<Longrightarrow>
   CFGEdge_init slot c (Instr (Assign (obj # ts) v)) ivs = Inl TypeError"
  by (cases obj)
     (auto simp add: CFGEdge_init_def call_assignment_names_def target_name_def get_attr_name_string_def)

lemma unsupported_vertex:
  "unsupported obj \<Longrightarrow> \<not> (is_Call v \<and> is_Tuple obj) \<Longrightarrow>
   CFGVertex_init slot (Some (Assign (obj # ts) v)) pl so refs = Inl TypeError"
  by (cases obj)
     (auto simp add: CFGVertex_init_def call_assignment_names_def target_name_def get_attr_name_string_def)

lemma unsupported_block:
  "unsupported obj \<Longrightarrow> \<not> (is_Call v \<and> is_Tuple obj) \<Longrightarrow>
   process_block slot (Assign (obj # ts) v # rest) sv c ivs g = Inl TypeError"
  by (simp add: process_block_def add_statement_def unsupported_edge unsupported_vertex)

text \<open>
  The other shapes that \<^verbatim>\<open>get_reversed_string_list\<close> answers with None: the load
  context, an index node, and a subscript whose index is not a string, a number or a name.
\<close>

lemma reversed_string_list_null_shapes:
  "get_reversed_string_list slot Load omit = Inr None"
  "get_reversed_string_list slot (Index e) omit = Inr None"
  "get_reversed_string_list slot (Subscript v (Index (Tuple elts))) False = Inr None"
  "get_reversed_string_list slot (Subscript v (Index (OtherNode cs))) False = Inr None"
  by simp_all

text \<open>
  The nodes at which the inner loop of \<^verbatim>\<open>get_function_name_strings\<close> ends: the chain
  of callees, attribute values and subscripted values has to reach a name or a string
  literal; the loop has no branch for a node of any other class.
\<close>

fun ends_in_name :: "expr \<Rightarrow> bool" where
  "ends_in_name (Call func args) = ends_in_name func"
| "ends_in_name (Attribute v a) = ends_in_name v"
| "ends_in_name (Subscript v sl) = ends_in_name v"
| "ends_in_name (Name i) = True"
| "ends_in_name (Str s) = True"
| "ends_in_name _ = False"

lemma callee_chain_ends:
  assumes "callee_chain x names = Some y"
  shows "ends_in_name x"
proof (rule callee_chain.raw_induct [where P = "\<lambda>x names y. ends_in_name x"])
  show "callee_chain x names = Some y" by (rule assms)
next
  fix loop :: "expr \<Rightarrow> string list \<Rightarrow> string list option"
  fix current_item names result
  assume ends: "\<And>item ns r. loop item ns = Some r \<Longrightarrow> ends_in_name item"
  assume "(case current_item of
             Name i \<Rightarrow> Some (names @ [i])
           | Attribute v a \<Rightarrow> loop v (names @ [a])
           | Subscript v sl \<Rightarrow> loop v names
           | Call func args \<Rightarrow> loop func names
           | Str s \<Rightarrow> Some names
           | _ \<Rightarrow> loop current_item names) = Some result"
  then show "ends_in_name current_item"
    by (cases current_item) (auto dest: ends)
qed

lemma callee_chain_never_ends: "\<not> ends_in_name x \<Longrightarrow> callee_chain x names = None"
  using callee_chain_ends [of x names] by (cases "callee_chain x names") auto

lemma full_names_never_ends:
  "c \<in> set calls \<Longrightarrow> callee_chain c [] = None \<Longrightarrow> full_names calls = None"
  by (induction calls) (auto split: option.splits)

text \<open>
  A call whose callee chain reaches a node of another class (a method call on a list
  display or on a binary operation, the call of a lambda, ...): the loop never ends, so
  \<^verbatim>\<open>get_function_name_strings\<close> does not return, and neither does any caller, up to
  \<^verbatim>\<open>process_block\<close>.
\<close>

lemma function_names_never_end:
  assumes "\<not> ends_in_name func"
  shows "get_function_name_strings slot (Call func args # todo) = Inl NonTermination"
proof -
  from assms have "callee_chain (Call func args) [] = None"
    by (simp add: callee_chain_never_ends)
  moreover have "Call func args \<in> set (filter is_Call (walk (Call func args # todo)))"
    by simp
  ultimately have "full_names (filter is_Call (walk (Call func args # todo))) = None"
    by (rule full_names_never_ends [rotated])
  then show ?thesis by (simp add: get_function_name_strings_def)
qed

lemma attr_name_never_ends:
  "\<not> ends_in_name func \<Longrightarrow> get_attr_name_string slot (Call func args) omit = Inl NonTermination"
  by (simp add: get_attr_name_string_def function_names_never_end)

lemma block_never_ends:
  "\<not> ends_in_name func \<Longrightarrow>
   process_block slot (Expr (Call func args) # rest) sv c ivs g = Inl NonTermination"
  by (simp add: process_block_def add_statement_def CFGEdge_init_def CFGVertex_init_def
        function_names_never_end)

text \<open>
  With two calls in one expression the list of function names follows the dictionary
  order, and so does the attribute string made of it: for \<^verbatim>\<open>f(g())\<close> both orders occur.
\<close>

lemma function_names_follow_dictionary_order:
  "get_function_name_strings (\<lambda>call. 0) [Call (Name ''f'') [Call (Name ''g'') []]] =
     Inr [''f'', ''g'']"
  "get_function_name_strings (\<lambda>call. if call = Call (Name ''g'') [] then 0 else 1)
     [Call (Name ''f'') [Call (Name ''g'') []]] = Inr [''g'', ''f'']"
  by (simp_all add: get_function_name_strings_def dict_values_def callee_chain.simps)

text \<open>
  Claim C8. The spec has the attribute-path extraction fail with a dedicated
  unsupported-node error on every node outside its contract, has
  \<^verbatim>\<open>get_reversed_string_list\<close> return null on unsupported shapes, and has the utilities
  be functions of the subtree alone. The code has no such error and does not behave in one
  way on these nodes. On the call \<^verbatim>\<open>[1, 2].index(y)\<close>, whose callee is an attribute of a
  list display, \<^verbatim>\<open>get_attr_name_string\<close> never returns, and
  \<^verbatim>\<open>process_block\<close> on a block that begins with this call never returns either: no
  error reaches the caller. On \<^verbatim>\<open>(3).real\<close> \<^verbatim>\<open>get_reversed_string_list\<close> does not return
  null but raises TypeError (line 61), and on a subscript with a slice that is not an
  index it raises AttributeError (line 66). On \<^verbatim>\<open>f(g())\<close>, a supported input, the
  attribute string is \<^verbatim>\<open>g.f\<close> under one dictionary order and \<^verbatim>\<open>f.g\<close> under another.
\<close>

theorem C8_out_of_contract_nodes_hang_or_raise_other_errors:
  "get_attr_name_string slot (Call (Attribute (OtherNode []) ''index'') [Name ''y'']) omit =
     Inl NonTermination \<and>
   process_block slot (Expr (Call (Attribute (OtherNode []) ''index'') [Name ''y'']) # rest)
     sv c ivs g = Inl NonTermination \<and>
   get_reversed_string_list slot (Attribute (Num 3) ''real'') omit = Inl TypeError \<and>
   get_reversed_string_list slot (Subscript (Name ''a'') (OtherNode [])) False =
     Inl AttributeError \<and>
   get_attr_name_string (\<lambda>call. 0) (Call (Name ''f'') [Call (Name ''g'') []]) False =
     Inr (Some ''g.f'') \<and>
   get_attr_name_string (\<lambda>call. if call = Call (Name ''g'') [] then 0 else 1)
     (Call (Name ''f'') [Call (Name ''g'') []]) False = Inr (Some ''f.g'')"
proof -
  have "get_attr_name_string slot (Call (Attribute (OtherNode []) ''index'') [Name ''y'']) omit =
          Inl NonTermination"
    by (simp add: attr_name_never_ends)
  moreover have
    "process_block slot (Expr (Call (Attribute (OtherNode []) ''index'') [Name ''y'']) # rest)
       sv c ivs g = Inl NonTermination"
    by (simp add: block_never_ends)
  moreover have "get_reversed_string_list slot (Attribute (Num 3) ''real'') omit = Inl TypeError"
    by simp
  moreover have
    "get_reversed_string_list slot (Subscript (Name ''a'') (OtherNode [])) False = Inl AttributeError"
    by simp
  moreover have
    "get_attr_name_string (\<lambda>call. 0) (Call (Name ''f'') [Call (Name ''g'') []]) False =
       Inr (Some ''g.f'')"
    by (simp add: get_attr_name_string_def function_names_follow_dictionary_order)
  moreover have
    "get_attr_name_string (\<lambda>call. if call = Call (Name ''g'') [] then 0 else 1)
       (Call (Name ''f'') [Call (Name ''g'') []]) False = Inr (Some ''f.g'')"
    by (simp add: get_attr_name_string_def function_names_follow_dictionary_order)
  ultimately show ?thesis by blast
qed

section \<open>The builder on an empty block\<close>

text \<open>
  Claim C10. On the empty block \<^verbatim>\<open>process_block\<close> returns the starting vertices it was
  given, or the list that holds the starting vertex of the graph when it was given None,
  and the graph it returns is the graph it was given: vertices, edges, return statements
  and branch initial statements are unchanged.
\<close>

theorem C10_empty_block_is_identity:
  "process_block slot [] (Some vs) c ivs g = Inr (vs, g) \<and>
   process_block slot [] None c ivs g = Inr ([starting_vertices g], g)"
  by (simp add: process_block_def)

section \<open>For loops: results\<close>

text \<open>
  Claim C6. The spec has the loop vertex of every for loop carry exactly one loop-skip
  edge, to the post-loop vertex of the loop, and exactly one edge that enters the body. The
  code does not on a loop whose body creates no vertex, as in
  \<^verbatim>\<open>for i in xs: total += i\<close> (an augmented assignment is a statement that
  \<^verbatim>\<open>process_block\<close> has no branch for). The body is processed from the loop vertex and
  returns it as its only final vertex, so the loop-jump edge and the post-loop edge of
  lines 570 to 582 start at the loop vertex itself: it has three outgoing edges, a
  loop-jump edge to itself, a post-loop edge and the loop-skip edge, the last two both to
  the post-loop vertex, and no edge into a body.
\<close>

theorem C6_loop_vertex_of_body_without_vertex:
  "(case process_block slot [For (Name ''i'') (Name ''xs'') [OtherStmt]] None [] [] (CFG_init []) of
      Inl e \<Rightarrow> False
    | Inr (cur, g) \<Rightarrow>
        map name_changed (vertices g) = [[], [Some ''loop''], [Some ''post-loop'']] \<and>
        map (\<lambda>e. (instruction (edge_objects g ! e), target_state (edge_objects g ! e)))
          (edges (vertices g ! 1)) =
          [(InstrStr ''loop-jump'', Some 1), (InstrStr ''post-loop'', Some 2),
           (InstrStr ''loop-skip'', Some 2)])"
  by (simp add: build_defs)

text \<open>
  With a body that creates a vertex, as in \<^verbatim>\<open>for i in xs: f(i)\<close>, the loop vertex has the
  edge into the body and the loop-skip edge.
\<close>

lemma loop_vertex_of_call_body:
  "(case process_block slot [For (Name ''i'') (Name ''xs'') [Expr (Call (Name ''f'') [Name ''i''])]]
           None [] [] (CFG_init []) of
      Inl e \<Rightarrow> False
    | Inr (cur, g) \<Rightarrow>
        map (\<lambda>e. (instruction (edge_objects g ! e), target_state (edge_objects g ! e)))
          (edges (vertices g ! 1)) =
          [(Instr (Expr (Call (Name ''f'') [Name ''i''])), Some 3),
           (InstrStr ''loop-skip'', Some 2)])"
  by (simp add: build_defs dict_values_def)

section \<open>Grammar derivation: results\<close>

text \<open>
  Claim C7. \<^verbatim>\<open>derive_grammar\<close> is total on every SCFG. The code is not: on the graph
  that \<^verbatim>\<open>process_block\<close> builds for
  \<^verbatim>\<open>if a: f()\<close> followed by \<^verbatim>\<open>for x in xs: g(x)\<close>
  the post-conditional vertex has one outgoing edge, which leads to the loop vertex. The
  branch for post-conditional vertices takes a first edge into a loop vertex as the sign
  of being inside a loop and reads \<^verbatim>\<open>vertex.edges[1]\<close>, which raises IndexError; no
  map is returned.
\<close>

theorem C7_derive_grammar_fails_on_conditional_before_loop:
  "(case process_block slot
           [If (Name ''a'') [Expr (Call (Name ''f'') [])] [],
            For (Name ''x'') (Name ''xs'') [Expr (Call (Name ''g'') [Name ''x''])]]
           None [] [] (CFG_init []) of
      Inl e \<Rightarrow> False
    | Inr (cur, g) \<Rightarrow> derive_grammar g = Inl IndexError)"
  by (simp add: build_defs grammar_defs)

text \<open>
  What holds of the map when \<^verbatim>\<open>derive_grammar\<close> does return one: every vertex is a key,
  and a vertex without outgoing edges has the single rule for the empty string.
\<close>

lemma derive_from_keys:
  "derive_from g v vs m = Inr m' \<Longrightarrow> dom m' = dom m \<union> {v ..< v + length vs}"
proof (induction vs arbitrary: v m)
  case Nil
  then show ?case by simp
next
  case (Cons a vs)
  then show ?case by (auto split: sum.splits)
qed

lemma derive_from_lookup:
  "derive_from g v vs m = Inr m' \<Longrightarrow>
   (\<forall>u < v. m' u = m u) \<and>
   (\<forall>u. v \<le> u \<and> u < v + length vs \<longrightarrow> (\<exists>r. m' u = Some r \<and> vertex_rules g u = Inr r))"
proof (induction vs arbitrary: v m)
  case Nil
  then show ?case by auto
next
  case (Cons a vs)
  from Cons.prems obtain rules where
    rules: "vertex_rules g v = Inr rules" and
    rest: "derive_from g (Suc v) vs (m(v \<mapsto> rules)) = Inr m'"
    by (auto split: sum.splits)
  from Cons.IH [OF rest] have
    low: "\<forall>u < Suc v. m' u = (m(v \<mapsto> rules)) u" and
    high: "\<forall>u. Suc v \<le> u \<and> u < Suc v + length vs \<longrightarrow>
             (\<exists>r. m' u = Some r \<and> vertex_rules g u = Inr r)"
    by blast+
  have "\<forall>u < v. m' u = m u"
    using low by simp
  moreover have "\<exists>r. m' u = Some r \<and> vertex_rules g u = Inr r"
    if "v \<le> u \<and> u < v + length (a # vs)" for u
  proof (cases "u = v")
    case True
    with low rules show ?thesis by simp
  next
    case False
    with that high show ?thesis by simp
  qed
  ultimately show ?case by blast
qed

lemma derive_grammar_when_it_returns:
  "derive_grammar g = Inr m \<Longrightarrow>
   dom m = {..< length (vertices g)} \<and>
   (\<forall>v < length (vertices g). edges (vertices g ! v) = [] \<longrightarrow> m v = Some [[Epsilon]])"
proof -
  assume r: "derive_grammar g = Inr m"
  then have d: "dom m = {..< length (vertices g)}"
    using derive_from_keys [of g 0 "vertices g" Map.empty m]
    by (auto simp add: derive_grammar_def)
  have "m v = Some [[Epsilon]]" if "v < length (vertices g)" "edges (vertices g ! v) = []" for v
  proof -
    from r have "\<forall>u. 0 \<le> u \<and> u < 0 + length (vertices g) \<longrightarrow>
                   (\<exists>r. m u = Some r \<and> vertex_rules g u = Inr r)"
      using derive_from_lookup [of g 0 "vertices g" Map.empty m]
      by (simp add: derive_grammar_def)
    with that obtain rs where "m v = Some rs" "vertex_rules g v = Inr rs" by auto
    with that show ?thesis by (simp add: vertex_rules_def)
  qed
  with d show ?thesis by blast
qed

section \<open>Start-up: results\<close>

lemma Verification_init_test_mode:
  "get_or conf ''test'' (JStr '''') = JStr ''yes'' \<Longrightarrow>
   Verification_init conf =
     (if truthy (conf_get conf ''test_module'')
      then Inr \<lparr> VERDICT_SERVER_URL = get_or conf ''verdict_server_url'' (JStr ''http://localhost:9001/''),
                 VYPR_OUTPUT_VERBOSE = get_or conf ''verbose'' (JBool True),
                 PROJECT_ROOT = get_or conf ''project_root'' (JStr ''''),
                 VYPR_MODULE = get_or conf ''vypr_module'' (JStr ''''),
                 TEST_FRAMEWORK = JStr ''yes'' \<rparr>
      else Inl SystemExit)"
  by (auto simp: Verification_init_def Let_def get_or_def)

lemma Verification_init_not_test_mode:
  "get_or conf ''test'' (JStr '''') \<noteq> JStr ''yes'' \<Longrightarrow>
   Verification_init conf = Inl UnboundLocalError"
  by (simp add: Verification_init_def Let_def)

text \<open>
  Claim C9. Start-up is refused exactly when test mode is on and \<^verbatim>\<open>test_module\<close> is
  missing; without test mode a missing \<^verbatim>\<open>test_module\<close> does not prevent start-up.
  The code does not do this: with an empty configuration (no \<^verbatim>\<open>test\<close> key, no
  \<^verbatim>\<open>test_module\<close> key) the check \<^verbatim>\<open>if TEST_DIR == ''\<close> reads the unbound local
  \<^verbatim>\<open>TEST_DIR\<close> and \<^verbatim>\<open>__init__\<close> ends with UnboundLocalError.
\<close>

theorem C9_startup_without_test_mode_fails:
  "Verification_init Map.empty = Inl UnboundLocalError"
  by (simp add: Verification_init_def Let_def get_or_def conf_get_def)

section \<open>The event consumer: states and inputs of the results\<close>

text \<open>
  The state in which \<^verbatim>\<open>consumption_thread_function\<close> enters its loop (lines 167 to 169):
  monitoring is active, the transaction is \<^verbatim>\<open>-1\<close>, the loop flag is set, nothing has been
  posted and no local variable of the handlers is bound.
\<close>

definition consumer_init ::
  "(string \<times> (string \<times> PropertyMapGroup) list) list \<Rightarrow> string \<Rightarrow> int \<Rightarrow> consumer" where
  "consumer_init maps_of_functions test_mode clock =
     \<lparr> function_to_maps = maps_of_functions, test_framework = test_mode,
       INACTIVE_MONITORING = False, transaction = PInt (- 1), continue_monitoring = True,
       posted = [], now = clock, local_maps = None, local_atom_sub_index = None \<rparr>"

text \<open>
  A formula module for the concrete runs below: a new monitor has no observation and the
  timestamp sequence that holds the current time; the checks leave the monitor as it is;
  an observation makes the observed atom the collapsing atom, with verdict true.
\<close>

definition example_module :: formula_module where
  "example_module =
     \<lparr> new_monitor = (\<lambda>fs t.
         \<lparr> formula_verdict = None, monitor_state = [(AtomIndex 0, None)],
           monitor_instantiation_time = [t], atom_to_observation = [(0, [])],
           atom_to_program_path = [(0, [])], atom_to_state_dict = [(0, [])],
           collapsing_atom_index = None, collapsing_atom_sub_index = None \<rparr>),
       check_optimised = (\<lambda>a m. Inr m),
       check_atom_truth_value = (\<lambda>a i s m. Inr m),
       process_atom_and_value = (\<lambda>ob m.
         Inr (m\<lparr> formula_verdict := Some True,
                 collapsing_atom_index := Some (obs_atom_index ob),
                 collapsing_atom_sub_index := Some (obs_atom_sub_index ob) \<rparr>)) \<rparr>"

text \<open>A verdict server that answers every request with the two identifiers.\<close>

definition example_server :: server where
  "example_server = (\<lambda>r. Inr [(''function_id'', PInt 1), (''function_call_id'', PInt 2)])"

text \<open>A group for a property over one bind variable with one atom, with a program path left over.\<close>

definition example_group :: "int list \<Rightarrow> PropertyMapGroup" where
  "example_group path =
     \<lparr> formula_structure = \<lparr> bind_variables = [''q''], formula_atoms = [SingleAtom ''q''] \<rparr>,
       static_qd_to_monitors = [], verdict_report = [], latest_time_of_call = PNone,
       program_path = path \<rparr>"

text \<open>A consumer in test mode, for one function with one property.\<close>

definition example_consumer :: consumer where
  "example_consumer = consumer_init [(''f'', [(''h'', example_group [])])] ''yes'' 100"

text \<open>The same consumer after an \<^verbatim>\<open>inactive-monitoring-start\<close> event.\<close>

definition paused_consumer :: consumer where
  "paused_consumer = example_consumer\<lparr> INACTIVE_MONITORING := True \<rparr>"

text \<open>
  A consumer for one function with two properties, each with a program path left over from
  the previous call.
\<close>

definition two_property_consumer :: consumer where
  "two_property_consumer =
     consumer_init [(''f'', [(''h1'', example_group [1]), (''h2'', example_group [2])])] ''yes'' 100"

text \<open>
  A consumer whose property has two bind variables and one single-variable atom over the
  first of them. Its bucket 0 holds one monitor with the timestamp sequence of both bind
  variables, the truth value of atom 0 and the observation, program path and state recorded
  for it.
\<close>

definition observed_monitor :: monitor where
  "observed_monitor =
     \<lparr> formula_verdict = None, monitor_state = [(AtomIndex 0, Some True)],
       monitor_instantiation_time = [10, 11], atom_to_observation = [(0, [(0, PInt 7)])],
       atom_to_program_path = [(0, [(0, PInt 0)])], atom_to_state_dict = [(0, [(0, PNone)])],
       collapsing_atom_index = None, collapsing_atom_sub_index = None \<rparr>"

definition cloning_consumer :: consumer where
  "cloning_consumer =
     consumer_init
       [(''f'', [(''h'',
           \<lparr> formula_structure = \<lparr> bind_variables = [''q'', ''t''], formula_atoms = [SingleAtom ''q''] \<rparr>,
             static_qd_to_monitors = [(0, [observed_monitor])], verdict_report = [],
             latest_time_of_call = PDatetime 9, program_path = [] \<rparr>)])]
       ''yes'' 100"

text \<open>
  An instrument event of the property \<open>h\<close> of the function \<open>function_name\<close> whose atom
  index is below \<open>n\<close>.
\<close>

fun is_instrument_for :: "string \<Rightarrow> string \<Rightarrow> nat \<Rightarrow> event \<Rightarrow> bool" where
  "is_instrument_for h function_name n (Instrument h' f qs a s ps t1 t2 v th sd) =
     (h' = h \<and> f = function_name \<and> a < n)"
| "is_instrument_for h function_name n _ = False"

text \<open>
  The state of the consumer between the start event and the end event of a call of
  \<open>function_name\<close> in test mode: the loop runs, monitoring is active, a transaction time is
  stored, the requests posted are \<open>sent\<close>, and the first group of the function is the group
  of \<open>h\<close>, with the time of call \<open>t0\<close>, the empty program path and \<open>n\<close> atoms.
\<close>

definition call_in_progress ::
  "string \<Rightarrow> string \<Rightarrow> int \<Rightarrow> int \<Rightarrow> nat \<Rightarrow> request list \<Rightarrow> consumer \<Rightarrow> bool" where
  "call_in_progress function_name h tx t0 n sent w =
     (continue_monitoring w \<and> \<not> INACTIVE_MONITORING w \<and> is_substring ''yes'' (test_framework w) \<and>
      transaction w = PDatetime tx \<and> posted w = sent \<and>
      (case map_of (function_to_maps w) function_name of
         Some ((h', maps) # rest) \<Rightarrow>
           h' = h \<and> latest_time_of_call maps = PDatetime t0 \<and> program_path maps = [] \<and>
           length (formula_atoms (formula_structure maps)) = n
       | _ \<Rightarrow> False))"

section \<open>The event consumer while monitoring is paused\<close>

text \<open>
  Claim C3, as the spec has it: while the paused flag is set, every event other than
  \<^verbatim>\<open>inactive-monitoring-stop\<close> is discarded and does not end the loop. The event
  \<^verbatim>\<open>end-monitoring\<close> is not discarded: the loop tests for it before it tests the
  flag, so it ends the loop of a paused consumer too.
\<close>

theorem C3_counterexample_end_monitoring_while_paused:
  "INACTIVE_MONITORING paused_consumer \<and> continue_monitoring paused_consumer \<and>
   consume example_module example_server EndMonitoring paused_consumer =
     Inr (paused_consumer\<lparr> continue_monitoring := False \<rparr>) \<and>
   consumption_thread_function example_module example_server
       [EndMonitoring, InactiveMonitoringStop, Path ''h'' ''f'' 1] paused_consumer =
     Inr (paused_consumer\<lparr> continue_monitoring := False \<rparr>)"
  by (simp add: consume_def paused_consumer_def example_consumer_def consumer_init_def)

text \<open>
  Claim C3, amended. While the paused flag is set, an event other than
  \<^verbatim>\<open>inactive-monitoring-stop\<close> and \<^verbatim>\<open>end-monitoring\<close> leaves the whole state of the
  consumer as it is (the groups, the flags, the transaction, the requests posted), whatever
  the formula module and the server are, and the loop goes on; \<^verbatim>\<open>end-monitoring\<close> clears
  the loop flag and changes nothing else, so no group changes either.
\<close>

theorem C3_paused_consumer_discards_all_but_stop_and_end:
  "INACTIVE_MONITORING w \<Longrightarrow> top_pair \<noteq> InactiveMonitoringStop \<Longrightarrow>
   consume fm srv top_pair w =
     Inr (if top_pair = EndMonitoring then w\<lparr> continue_monitoring := False \<rparr> else w)"
  by (cases top_pair) (simp_all add: consume_def)

theorem C3_witness:
  "INACTIVE_MONITORING paused_consumer \<and>
   Function [''h''] ''f'' ''end'' (PDatetime 3) \<noteq> InactiveMonitoringStop \<and>
   consume example_module example_server (Function [''h''] ''f'' ''end'' (PDatetime 3)) paused_consumer =
     Inr paused_consumer"
  using C3_paused_consumer_discards_all_but_stop_and_end
          [of paused_consumer "Function [''h''] ''f'' ''end'' (PDatetime 3)" example_module example_server]
  by (simp add: paused_consumer_def)

section \<open>The function-start handler\<close>

text \<open>A group that has been written is the group that is read; the other groups are as before.\<close>

lemma get_put_maps_same:
  "get_maps (put_maps f h maps w) f h = Inr maps"
  by (simp add: get_maps_def put_maps_def update_conv')

lemma get_put_maps_other:
  "h' \<noteq> h \<Longrightarrow> get_maps (put_maps f h maps w) f h' = get_maps w f h'"
  by (simp add: get_maps_def put_maps_def update_conv' split: option.splits)

text \<open>
  Claim C4. The start handler clears the program path of every property of its list. The
  code does not: the statement \<^verbatim>\<open>maps.program_path = []\<close> stands after the loop over
  the property hashes, so it clears the program path of the last property only. For the
  list \<^verbatim>\<open>["h1", "h2"]\<close>, on groups whose program paths are \<^verbatim>\<open>[1]\<close> and \<^verbatim>\<open>[2]\<close>, the
  handler returns with the monitors, the report and the time of call of both groups reset
  as claimed, with the program path of \<^verbatim>\<open>h2\<close> empty and with the program path of
  \<^verbatim>\<open>h1\<close> still \<^verbatim>\<open>[1]\<close>.
\<close>

theorem C4_start_clears_program_path_of_last_property_only:
  "(case consume fm srv (Function [''h1'', ''h2''] ''f'' ''start'' (PDatetime 5)) two_property_consumer of
      Inl e \<Rightarrow> False
    | Inr w \<Rightarrow>
        get_maps w ''f'' ''h1'' =
          Inr ((example_group [1])\<lparr> latest_time_of_call := PDatetime 5 \<rparr>) \<and>
        get_maps w ''f'' ''h2'' =
          Inr ((example_group [])\<lparr> latest_time_of_call := PDatetime 5 \<rparr>))"
  by (simp add: consume_def function_start_def get_maps_def put_maps_def two_property_consumer_def
        consumer_init_def example_group_def)

section \<open>Monitor cloning on a trigger\<close>

text \<open>
  A clone that the code completes never went through the branch for a single-variable atom
  bound before \<open>k\<close>: every key of the old monitor's state is then an atom index in range
  whose atom is a negation, a mixed atom, or an atom whose variable is bound at position
  \<open>k\<close> or later. A key that is an atom object fails at \<^verbatim>\<open>atoms[atom_index]\<close>, and
  without such a key the lookup \<^verbatim>\<open>monitor._state._state[atom]\<close> fails.
\<close>

lemma copy_atoms_keys:
  "copy_atoms fm fs k s old keys new = Inr new' \<Longrightarrow> key \<in> set keys \<Longrightarrow>
   (\<exists>i. key = AtomIndex i) \<and> (\<exists>n n'. copy_atom fm fs k s old key n = Inr n')"
proof (induction keys arbitrary: new)
  case Nil
  then show ?case by simp
next
  case (Cons a keys)
  from Cons.prems(1) obtain new1 where
    head: "copy_atom fm fs k s old a new = Inr new1" and
    rest: "copy_atoms fm fs k s old keys new1 = Inr new'"
    by (auto split: sum.splits)
  show ?case
  proof (cases "key = a")
    case True
    from head have "\<exists>i. a = AtomIndex i" by (cases a) (simp_all add: copy_atom_def)
    with True head show ?thesis by blast
  next
    case False
    with Cons.prems(2) have "key \<in> set keys" by simp
    with Cons.IH [OF rest] show ?thesis by blast
  qed
qed

lemma copy_atom_single_variable:
  assumes "copy_atom fm fs k s old (AtomIndex i) new = Inr new'"
      and "\<And>a. map_of (monitor_state old) (AtomObject a) = None"
  shows "i < length (formula_atoms fs) \<and>
         (is_LogicalNot (formula_atoms fs ! i) \<or> is_mixed_atom (formula_atoms fs ! i) \<or>
          (\<exists>p. index_of (bind_variables fs) (hd (get_base_variables (formula_atoms fs ! i))) = Inr p \<and>
               k \<le> p))"
  using assms
  by (auto simp add: copy_atom_def state_lookup_def Let_def split: if_splits sum.splits)

lemma clone_monitor_copies_no_single_variable_atom:
  assumes clone: "clone_monitor fm fs k s t old = Inr new"
      and key: "(AtomIndex i, v) \<in> set (monitor_state old)"
  shows "i < length (formula_atoms fs) \<and>
         (is_LogicalNot (formula_atoms fs ! i) \<or> is_mixed_atom (formula_atoms fs ! i) \<or>
          (\<exists>p. index_of (bind_variables fs) (hd (get_base_variables (formula_atoms fs ! i))) = Inr p \<and>
               k \<le> p))"
proof -
  let ?keys = "map fst (monitor_state old)"
  let ?fresh = "(new_monitor fm fs t)\<lparr> monitor_instantiation_time :=
                                        take k (monitor_instantiation_time old) @ [t] \<rparr>"
  from clone have all: "copy_atoms fm fs k s old ?keys ?fresh = Inr new"
    by (simp add: clone_monitor_def)
  have no_object: "map_of (monitor_state old) (AtomObject a) = None" for a
  proof (rule ccontr)
    assume "map_of (monitor_state old) (AtomObject a) \<noteq> None"
    then have "AtomObject a \<in> set ?keys"
      by (auto simp add: map_of_eq_None_iff)
    with copy_atoms_keys [OF all] show False by blast
  qed
  from key have "AtomIndex i \<in> set ?keys" by force
  with copy_atoms_keys [OF all] obtain n n' where
    "copy_atom fm fs k s old (AtomIndex i) n = Inr n'" by blast
  then show ?thesis using no_object by (rule copy_atom_single_variable)
qed

text \<open>
  Claim C2. On a trigger for bind variable \<open>k > 0\<close> the clone of a monitor keeps the slot of
  every single-variable atom bound before \<open>k\<close> and replays its truth value. The code does
  not: for such an atom it evaluates \<^verbatim>\<open>monitor._state._state[atom]\<close>, with the atom
  object as the key of a dictionary that it has just iterated as a dictionary of atom
  indices (\<^verbatim>\<open>atom = atoms[atom_index]\<close>), and that lookup raises KeyError. On the monitor
  with timestamp sequence \<open>[10, 11]\<close>, truth value true for atom 0 and one recorded slot, the
  trigger for bind variable 1 ends the consumer thread with KeyError, whatever the formula
  module and the server are; no clone is appended.
\<close>

theorem C2_clone_of_single_variable_atom_fails:
  "consume fm srv (Trigger ''h'' ''f'' 0 1) cloning_consumer = Inl KeyError"
  by (simp add: consume_def property_event_def get_maps_def trigger_def clone_monitor_def
        copy_atom_def state_lookup_def cloning_consumer_def consumer_init_def observed_monitor_def)

section \<open>One monitored call, from start to end\<close>

lemma call_in_progressE:
  assumes "call_in_progress f h tx t0 n sent w"
  obtains maps rest where
    "map_of (function_to_maps w) f = Some ((h, maps) # rest)"
    "latest_time_of_call maps = PDatetime t0" "program_path maps = []"
    "length (formula_atoms (formula_structure maps)) = n"
    "continue_monitoring w" "\<not> INACTIVE_MONITORING w" "is_substring ''yes'' (test_framework w)"
    "transaction w = PDatetime tx" "posted w = sent"
  using assms
  by (auto simp add: call_in_progress_def split: option.splits list.splits)

lemma get_maps_first:
  "map_of (function_to_maps w) f = Some ((h, maps) # rest) \<Longrightarrow> get_maps w f h = Inr maps"
  by (simp add: get_maps_def)

lemma put_maps_first:
  "map_of (function_to_maps w) f = Some ((h, maps) # rest) \<Longrightarrow>
   map_of (function_to_maps (put_maps f h maps' w)) f = Some ((h, maps') # rest)"
  by (simp add: put_maps_def update_conv')

lemma put_maps_fields:
  "continue_monitoring (put_maps f h maps w) = continue_monitoring w"
  "INACTIVE_MONITORING (put_maps f h maps w) = INACTIVE_MONITORING w"
  "test_framework (put_maps f h maps w) = test_framework w"
  "transaction (put_maps f h maps w) = transaction w"
  "posted (put_maps f h maps w) = posted w"
  "now (put_maps f h maps w) = now w"
  "local_maps (put_maps f h maps w) = local_maps w"
  by (simp_all add: put_maps_def)

lemma start_step:
  assumes "continue_monitoring w" "\<not> INACTIVE_MONITORING w" "is_substring ''yes'' (test_framework w)"
      and "transaction w = PDatetime tx"
      and first: "map_of (function_to_maps w) f = Some ((h, maps) # rest)"
  shows "\<exists>w'. consume fm srv (Function [h] f ''start'' (PDatetime t0)) w = Inr w' \<and>
              call_in_progress f h tx t0 (length (formula_atoms (formula_structure maps))) (posted w) w'"
proof -
  let ?w0 = "w\<lparr> local_maps := Some (f, h) \<rparr>"
  let ?m1 = "maps\<lparr> static_qd_to_monitors := [], verdict_report := [],
                   latest_time_of_call := PDatetime t0 \<rparr>"
  let ?w1 = "put_maps f h ?m1 ?w0"
  let ?w2 = "put_maps f h (?m1\<lparr> program_path := [] \<rparr>) ?w1"
  from first have first0: "map_of (function_to_maps ?w0) f = Some ((h, maps) # rest)" by simp
  have first1: "map_of (function_to_maps ?w1) f = Some ((h, ?m1) # rest)"
    using put_maps_first [OF first0] .
  have first2: "map_of (function_to_maps ?w2) f = Some ((h, ?m1\<lparr> program_path := [] \<rparr>) # rest)"
    using put_maps_first [OF first1] .
  have loop: "start_properties [h] f (PDatetime t0) w = Inr ?w1"
    using get_maps_first [OF first] by simp
  have "function_start [h] f (PDatetime t0) w = Inr ?w2"
    using loop get_maps_first [OF first1] by (simp add: function_start_def put_maps_fields)
  then have "consume fm srv (Function [h] f ''start'' (PDatetime t0)) w = Inr ?w2"
    using assms(2) by (simp add: consume_def)
  moreover have "call_in_progress f h tx t0 (length (formula_atoms (formula_structure maps))) (posted w) ?w2"
    using assms(1-4) first2 by (simp add: call_in_progress_def put_maps_fields)
  ultimately show ?thesis by blast
qed

lemma trigger_step:
  assumes "call_in_progress f h tx t0 n sent w"
  shows "\<exists>w'. consume fm srv (Trigger h f q 0) w = Inr w' \<and> call_in_progress f h tx t0 n sent w'"
proof -
  from assms obtain maps rest where
    first: "map_of (function_to_maps w) f = Some ((h, maps) # rest)" and
    fields: "latest_time_of_call maps = PDatetime t0" "program_path maps = []"
      "length (formula_atoms (formula_structure maps)) = n" and
    flags: "continue_monitoring w" "\<not> INACTIVE_MONITORING w" "is_substring ''yes'' (test_framework w)"
      "transaction w = PDatetime tx" "posted w = sent"
    by (rule call_in_progressE)
  obtain monitors where t: "trigger fm q 0 (local_atom_sub_index w) (now w) maps = Inr monitors"
    by (simp add: trigger_def)
  let ?w0 = "w\<lparr> local_maps := Some (f, h), now := now w + 1 \<rparr>"
  let ?w1 = "put_maps f h (maps\<lparr> static_qd_to_monitors := monitors \<rparr>) ?w0"
  from first have first0: "map_of (function_to_maps ?w0) f = Some ((h, maps) # rest)" by simp
  have "consume fm srv (Trigger h f q 0) w = Inr ?w1"
    using flags(2) get_maps_first [OF first] t by (simp add: consume_def property_event_def)
  moreover have "call_in_progress f h tx t0 n sent ?w1"
    using put_maps_first [OF first0] fields flags by (simp add: call_in_progress_def put_maps_fields)
  ultimately show ?thesis by blast
qed

lemma observe_all_total:
  "(\<And>ob m. \<exists>m'. process_atom_and_value fm ob m = Inr m') \<Longrightarrow> \<exists>ms'. observe_all fm ob ms = Inr ms'"
proof (induction ms)
  case Nil
  then show ?case by simp
next
  case (Cons m ms)
  from Cons.prems obtain m' where "process_atom_and_value fm ob m = Inr m'" by blast
  moreover from Cons obtain ms' where "observe_all fm ob ms = Inr ms'" by blast
  ultimately show ?case by simp
qed

lemma instrument_total:
  assumes total: "\<And>ob m. \<exists>m'. process_atom_and_value fm ob m = Inr m'"
  shows "obs_atom_index ob < length (formula_atoms (formula_structure maps)) \<Longrightarrow>
         \<exists>maps'. instrument fm ob pairs maps = Inr maps' \<and>
                 formula_structure maps' = formula_structure maps \<and>
                 latest_time_of_call maps' = latest_time_of_call maps \<and>
                 program_path maps' = program_path maps"
proof (induction pairs arbitrary: maps)
  case Nil
  then show ?case by simp
next
  case (Cons pair pairs)
  obtain q p where pair: "pair = (q, p)" by (cases pair)
  show ?case
  proof (cases "map_of (static_qd_to_monitors maps) q")
    case None
    with Cons pair show ?thesis by simp
  next
    case (Some ms)
    let ?ob = "ob\<lparr> obs_atom := formula_atoms (formula_structure maps) ! obs_atom_index ob,
                    obs_inst_point_id := p \<rparr>"
    from observe_all_total [of fm ?ob ms] total obtain ms' where
      ms': "observe_all fm ?ob ms = Inr ms'" by blast
    let ?maps1 = "maps\<lparr> static_qd_to_monitors := AList.update q ms' (static_qd_to_monitors maps) \<rparr>"
    from Cons.prems have "obs_atom_index ob < length (formula_atoms (formula_structure ?maps1))"
      by simp
    from Cons.IH [OF this] obtain maps' where
      "instrument fm ob pairs ?maps1 = Inr maps'"
      "formula_structure maps' = formula_structure maps"
      "latest_time_of_call maps' = latest_time_of_call maps"
      "program_path maps' = program_path maps"
      by auto
    with Cons.prems pair Some ms' show ?thesis by simp
  qed
qed

lemma instrument_step:
  assumes total: "\<And>ob m. \<exists>m'. process_atom_and_value fm ob m = Inr m'"
      and inv: "call_in_progress f h tx t0 n sent w"
      and ev: "is_instrument_for h f n top_pair"
  shows "\<exists>w'. consume fm srv top_pair w = Inr w' \<and> call_in_progress f h tx t0 n sent w'"
proof -
  from inv obtain maps rest where
    first: "map_of (function_to_maps w) f = Some ((h, maps) # rest)" and
    fields: "latest_time_of_call maps = PDatetime t0" "program_path maps = []"
      "length (formula_atoms (formula_structure maps)) = n" and
    flags: "continue_monitoring w" "\<not> INACTIVE_MONITORING w" "is_substring ''yes'' (test_framework w)"
      "transaction w = PDatetime tx" "posted w = sent"
    by (rule call_in_progressE)
  from ev obtain qs a s ps t1 t2 v th sd where
    top_pair: "top_pair = Instrument h f qs a s ps t1 t2 v th sd" and a: "a < n"
    by (cases top_pair) auto
  let ?ob = "\<lparr> obs_atom = SingleAtom [], obs_start = t1, obs_end = t2, obs_value = v,
               obs_atom_index = a, obs_atom_sub_index = s, obs_inst_point_id = 0,
               obs_program_path = length (program_path maps),
               obs_state_dict = (case sd of None \<Rightarrow> PNone | Some d \<Rightarrow> d) \<rparr>"
  from a fields have "obs_atom_index ?ob < length (formula_atoms (formula_structure maps))" by simp
  from instrument_total [OF total this, of "zip qs ps"] obtain maps' where
    run: "instrument fm ?ob (zip qs ps) maps = Inr maps'" and
    same: "formula_structure maps' = formula_structure maps"
      "latest_time_of_call maps' = latest_time_of_call maps"
      "program_path maps' = program_path maps"
    by blast
  let ?w0 = "w\<lparr> local_maps := Some (f, h), local_atom_sub_index := Some s \<rparr>"
  let ?w1 = "put_maps f h maps' ?w0"
  from first have first0: "map_of (function_to_maps ?w0) f = Some ((h, maps) # rest)" by simp
  have "consume fm srv top_pair w = Inr ?w1"
    using flags(2) get_maps_first [OF first] run top_pair
    by (simp add: consume_def property_event_def)
  moreover have "call_in_progress f h tx t0 n sent ?w1"
    using put_maps_first [OF first0] fields flags same
    by (simp add: call_in_progress_def put_maps_fields)
  ultimately show ?thesis by blast
qed

lemma instruments_steps:
  assumes total: "\<And>ob m. \<exists>m'. process_atom_and_value fm ob m = Inr m'"
  shows "call_in_progress f h tx t0 n sent w \<Longrightarrow> list_all (is_instrument_for h f n) instruments \<Longrightarrow>
         \<exists>w'. consumption_thread_function fm srv (instruments @ queue) w =
                 consumption_thread_function fm srv queue w' \<and>
              call_in_progress f h tx t0 n sent w'"
proof (induction instruments arbitrary: w)
  case Nil
  then show ?case by auto
next
  case (Cons top_pair instruments)
  from Cons.prems have ev: "is_instrument_for h f n top_pair" and
    evs: "list_all (is_instrument_for h f n) instruments" by simp_all
  from instrument_step [OF total Cons.prems(1) ev] obtain w1 where
    step: "consume fm srv top_pair w = Inr w1" and inv1: "call_in_progress f h tx t0 n sent w1"
    by blast
  from Cons.prems(1) have "continue_monitoring w" by (simp add: call_in_progress_def)
  with step have "consumption_thread_function fm srv ((top_pair # instruments) @ queue) w =
                  consumption_thread_function fm srv (instruments @ queue) w1"
    by simp
  with Cons.IH [OF inv1 evs] show ?case by auto
qed

lemma end_step:
  assumes inv: "call_in_progress f h tx t0 n sent w"
      and answer: "srv (InsertFunctionCallData tx t0 t3 f []) = Inr insertion_data"
      and ids: "map_of insertion_data ''function_id'' = Some function_id"
               "map_of insertion_data ''function_call_id'' = Some function_call_id"
  shows "\<exists>w' verdicts. consume fm srv (Function [h] f ''end'' (PDatetime t3)) w = Inr w' \<and>
           posted w' = sent @ [InsertFunctionCallData tx t0 t3 f [],
                               RegisterVerdicts function_call_id function_id verdicts h]"
proof -
  from inv obtain maps rest where
    first: "map_of (function_to_maps w) f = Some ((h, maps) # rest)" and
    fields: "latest_time_of_call maps = PDatetime t0" "program_path maps = []" and
    flags: "continue_monitoring w" "\<not> INACTIVE_MONITORING w" "is_substring ''yes'' (test_framework w)"
      "transaction w = PDatetime tx" "posted w = sent"
    by (rule call_in_progressE)
  let ?call = "InsertFunctionCallData tx t0 t3 f []"
  let ?w1 = "w\<lparr> posted := posted w @ [?call] \<rparr>"
  have sent1: "send_function_call_data srv f (latest_time_of_call maps) (PDatetime t3)
                 (program_path maps) (transaction w) w = Inr (insertion_data, ?w1)"
    using fields flags answer by (simp add: send_function_call_data_def)
  from first have first1: "get_maps ?w1 f h = Inr maps" by (simp add: get_maps_def)
  have "\<exists>w' verdicts. end_properties [h] f insertion_data ?w1 = Inr w' \<and>
          posted w' = posted ?w1 @ [RegisterVerdicts function_call_id function_id verdicts h]"
    using first1 ids
    by (simp add: response_field_def send_verdict_report_def put_maps_fields)
  then obtain w' verdicts where
    "end_properties [h] f insertion_data ?w1 = Inr w'"
    "posted w' = posted ?w1 @ [RegisterVerdicts function_call_id function_id verdicts h]"
    by blast
  with sent1 first flags show ?thesis
    by (simp add: consume_def function_end_def first_maps_def)
qed

text \<open>
  In test mode the end handler stamps the record with the stored transaction, which the
  loop initialises to \<^verbatim>\<open>-1\<close>; the record is built with
  \<^verbatim>\<open>transaction_time.isoformat()\<close>, which an integer does not have. On a consumer that
  has not received a \<^verbatim>\<open>test_transaction\<close> event, or has received one that carries a
  number, the end event ends the thread with AttributeError, and nothing is submitted.
\<close>

lemma test_mode_without_transaction_fails:
  "consumption_thread_function example_module example_server
     [Function [''h''] ''f'' ''start'' (PDatetime 0),
      Trigger ''h'' ''f'' 0 0,
      Instrument ''h'' ''f'' [0] 0 0 [7] (PDatetime 1) (PDatetime 2) (PInt 5) 1 None,
      Function [''h''] ''f'' ''end'' (PDatetime 3)]
     example_consumer = Inl AttributeError"
  by (simp add: consume_def function_start_def function_end_def property_event_def trigger_def
        get_maps_def put_maps_def first_maps_def send_function_call_data_def
        example_consumer_def consumer_init_def example_group_def example_module_def)

lemma test_mode_with_integer_transaction_fails:
  "consumption_thread_function example_module example_server
     [TestTransaction (PInt 42),
      Function [''h''] ''f'' ''start'' (PDatetime 0),
      Trigger ''h'' ''f'' 0 0,
      Instrument ''h'' ''f'' [0] 0 0 [7] (PDatetime 1) (PDatetime 2) (PInt 5) 1 None,
      Function [''h''] ''f'' ''end'' (PDatetime 3)]
     example_consumer = Inl AttributeError"
  by (simp add: consume_def function_start_def function_end_def property_event_def trigger_def
        get_maps_def put_maps_def first_maps_def send_function_call_data_def
        example_consumer_def consumer_init_def example_group_def example_module_def)

text \<open>
  In test mode, with a transaction time stored by a \<^verbatim>\<open>test_transaction\<close> event,
  monitoring active, and the group of \<open>h\<close> the first group of the function: when the
  formula module accepts every observation, the instrument events are events of \<open>h\<close> and
  the function with an atom index of the property, and the server answers the
  function-call record with the two identifiers, the loop runs through the sequence, and
  the requests it has submitted at the end are the ones submitted before followed by
  exactly the function-call record (transaction time, time of the start event, time of the
  end event, empty program path) and then one verdict report for \<open>h\<close> with the identifiers
  of the answer.
\<close>

lemma test_mode_call_record_then_verdict_report:
  assumes "continue_monitoring w" and "\<not> INACTIVE_MONITORING w"
      and "is_substring ''yes'' (test_framework w)"
      and "transaction w = PDatetime tx"
      and "map_of (function_to_maps w) f = Some ((h, maps) # rest)"
      and "\<And>ob m. \<exists>m'. process_atom_and_value fm ob m = Inr m'"
      and "list_all (is_instrument_for h f (length (formula_atoms (formula_structure maps)))) instruments"
      and "srv (InsertFunctionCallData tx t0 t3 f []) = Inr insertion_data"
      and "map_of insertion_data ''function_id'' = Some function_id"
      and "map_of insertion_data ''function_call_id'' = Some function_call_id"
  shows "\<exists>w' verdicts.
           consumption_thread_function fm srv
             (Function [h] f ''start'' (PDatetime t0) # Trigger h f q 0 # instruments @
              [Function [h] f ''end'' (PDatetime t3)]) w = Inr w' \<and>
           posted w' = posted w @ [InsertFunctionCallData tx t0 t3 f [],
                                   RegisterVerdicts function_call_id function_id verdicts h]"
proof -
  let ?n = "length (formula_atoms (formula_structure maps))"
  let ?end = "Function [h] f ''end'' (PDatetime t3)"
  from start_step [OF assms(1-5), of fm srv t0] obtain w1 where
    s1: "consume fm srv (Function [h] f ''start'' (PDatetime t0)) w = Inr w1" and
    i1: "call_in_progress f h tx t0 ?n (posted w) w1" by blast
  from trigger_step [OF i1, of fm srv q] obtain w2 where
    s2: "consume fm srv (Trigger h f q 0) w1 = Inr w2" and
    i2: "call_in_progress f h tx t0 ?n (posted w) w2" by blast
  from instruments_steps [OF assms(6) i2 assms(7), of srv "[?end]"] obtain w3 where
    s3: "consumption_thread_function fm srv (instruments @ [?end]) w2 =
         consumption_thread_function fm srv [?end] w3" and
    i3: "call_in_progress f h tx t0 ?n (posted w) w3" by blast
  have "\<exists>w' verdicts. consume fm srv ?end w3 = Inr w' \<and>
          posted w' = posted w @ [InsertFunctionCallData tx t0 t3 f [],
                                  RegisterVerdicts function_call_id function_id verdicts h]"
    using i3 assms(8-10) by (rule end_step)
  then obtain w4 verdicts where
    s4: "consume fm srv ?end w3 = Inr w4" and
    p4: "posted w4 = posted w @ [InsertFunctionCallData tx t0 t3 f [],
                                 RegisterVerdicts function_call_id function_id verdicts h]"
    by blast
  from i1 have c1: "continue_monitoring w1" by (simp add: call_in_progress_def)
  from i3 have c3: "continue_monitoring w3" by (simp add: call_in_progress_def)
  have "consumption_thread_function fm srv
          (Function [h] f ''start'' (PDatetime t0) # Trigger h f q 0 # instruments @ [?end]) w = Inr w4"
    using assms(1) s1 c1 s2 s3 c3 s4 by simp
  with p4 show ?thesis by blast
qed

lemma test_mode_call_record_then_verdict_report_example:
  "\<exists>w' verdicts.
     consumption_thread_function example_module example_server
       [Function [''h''] ''f'' ''start'' (PDatetime 0),
        Trigger ''h'' ''f'' 0 0,
        Instrument ''h'' ''f'' [0] 0 0 [7] (PDatetime 1) (PDatetime 2) (PInt 5) 1 None,
        Function [''h''] ''f'' ''end'' (PDatetime 3)]
       (example_consumer\<lparr> transaction := PDatetime 42 \<rparr>) = Inr w' \<and>
     posted w' = [InsertFunctionCallData 42 0 3 ''f'' [], RegisterVerdicts (PInt 2) (PInt 1) verdicts ''h'']"
  using test_mode_call_record_then_verdict_report
          [of "example_consumer\<lparr> transaction := PDatetime 42 \<rparr>" 42 "''f''" "''h''" "example_group []" "[]"
              example_module
              "[Instrument ''h'' ''f'' [0] 0 0 [7] (PDatetime 1) (PDatetime 2) (PInt 5) 1 None]"
              example_server 0 3 "[(''function_id'', PInt 1), (''function_call_id'', PInt 2)]"
              "PInt 1" "PInt 2" 0]
  by (simp add: example_consumer_def consumer_init_def example_group_def example_module_def
        example_server_def)

subsection \<open>The end event outside test mode\<close>

text \<open>
  Outside test mode (\<^verbatim>\<open>'yes' in TEST_FRAMEWORK\<close> is false) the end handler takes
  \<^verbatim>\<open>top_pair[3]\<close> as the transaction time (line 238). That element of the event is the
  scope string \<^verbatim>\<open>"end"\<close>, which line 223 has just compared; the time of the event is
  \<^verbatim>\<open>top_pair[-1]\<close>. \<^verbatim>\<open>send_function_call_data\<close> then calls \<^verbatim>\<open>isoformat()\<close> on the
  string (line 93). So whenever monitoring is not paused and the function has a property
  group, an end event ends the thread with AttributeError before anything is posted,
  whatever the state, the server and the time of the event are.
\<close>

lemma end_event_outside_test_mode:
  assumes "\<not> is_substring ''yes'' (test_framework w)" and "\<not> INACTIVE_MONITORING w"
      and "first_maps w f = Inr maps0"
  shows "consume fm srv (Function hs f ''end'' end_time) w = Inl AttributeError"
  using assms by (simp add: consume_def function_end_def send_function_call_data_def)

text \<open>
  The consumer as the loop enters it outside test mode, with the module's default
  \<^verbatim>\<open>TEST_FRAMEWORK = 'no'\<close> (line 24), for one function with one property.
\<close>

definition plain_consumer :: consumer where
  "plain_consumer = consumer_init [(''f'', [(''h'', example_group [])])] ''no'' 100"

text \<open>
  Claim C1. The spec has every sequence of a start event for \<open>h\<close>, a trigger for bind
  variable 0, instrument events and an end event for \<open>h\<close> submit one function-call record
  and then one verdict report. The code does not: outside test mode the end event of such
  a sequence raises AttributeError in \<^verbatim>\<open>send_function_call_data\<close>, because the end
  handler passes the scope string as the transaction time. The thread ends there; neither
  the function-call record nor the verdict report is submitted.
\<close>

theorem C1_end_event_fails_outside_test_mode:
  "consumption_thread_function example_module example_server
     [Function [''h''] ''f'' ''start'' (PDatetime 0),
      Trigger ''h'' ''f'' 0 0,
      Instrument ''h'' ''f'' [0] 0 0 [7] (PDatetime 1) (PDatetime 2) (PInt 5) 1 None,
      Function [''h''] ''f'' ''end'' (PDatetime 3)]
     plain_consumer = Inl AttributeError"
  by (simp add: consume_def function_start_def function_end_def property_event_def trigger_def
        get_maps_def put_maps_def first_maps_def send_function_call_data_def
        plain_consumer_def consumer_init_def example_group_def example_module_def)

end
